theory Spec2Isabelle
  imports Complex_Main "HOL-Library.Sublist"
begin

text \<open>
  The client of \<^verbatim>\<open>main.py\<close>: the identifier codec, the API wrappers and the handlers of
  the three tabs, as functions of what the backend answers. The source's names are kept;
  a leading underscore, which a name cannot start with here, is written \<open>u_\<close>
  (\<^verbatim>\<open>_submit_quiz\<close> is \<open>u_submit_quiz\<close>, next to the wrapper \<open>submit_quiz\<close>).
\<close>

section \<open>Python strings\<close>

text \<open>
  A Python \<^verbatim>\<open>str\<close> is a sequence of Unicode code points: slicing, \<^verbatim>\<open>split\<close> and
  \<^verbatim>\<open>strip\<close> all count code points, not bytes. The em dash of the display separator
  is the single code point U+2014, which an 8-bit \<^typ>\<open>char\<close> cannot hold, so a string
  is modelled as the list of its code points.
\<close>

type_synonym pystr = "nat list"

definition ascii :: "string \<Rightarrow> pystr" where
  "ascii s = map of_char s"

text \<open>
  The separator literal of the source: space, em dash (U+2014), space. In the quoted
  source below the em dash is written \<^verbatim>\<open>--\<close>.
\<close>

definition SEP :: pystr where
  "SEP = [32, 8212, 32]"

text \<open>
  \<^verbatim>\<open>sep in s\<close>: the separator occurs somewhere in the string.
\<close>

fun py_contains :: "pystr \<Rightarrow> pystr \<Rightarrow> bool" where
  "py_contains sep [] = (sep = [])"
| "py_contains sep (c # cs) = (prefix sep (c # cs) \<or> py_contains sep cs)"

text \<open>
  \<^verbatim>\<open>s.split(sep)\<close> for a non-empty separator: CPython scans from the left, cuts at
  each occurrence it finds and resumes the search behind that occurrence, so occurrences
  never overlap. \<open>seg\<close> is the segment collected since the last cut. (Python raises
  \<^verbatim>\<open>ValueError\<close> for an empty separator; every call of the source passes the literal
  separator, and for an empty one the function below returns the string uncut.)
\<close>

function split_from :: "pystr \<Rightarrow> pystr \<Rightarrow> pystr \<Rightarrow> pystr list" where
  "split_from sep seg [] = [seg]"
| "split_from sep seg (c # cs) =
     (if sep \<noteq> [] \<and> prefix sep (c # cs)
      then seg # split_from sep [] (drop (length sep) (c # cs))
      else split_from sep (seg @ [c]) cs)"
  by pat_completeness auto
termination
  by (relation "measure (\<lambda>(sep, seg, s). length s)") auto

definition py_split :: "pystr \<Rightarrow> pystr \<Rightarrow> pystr list" where
  "py_split s sep = split_from sep [] s"

text \<open>
  \<^verbatim>\<open>s.strip()\<close> removes the characters for which \<^verbatim>\<open>str.isspace\<close> holds from both
  ends: the code points below are exactly CPython's white space.
\<close>

definition py_isspace :: "nat \<Rightarrow> bool" where
  "py_isspace c \<longleftrightarrow>
     (9 \<le> c \<and> c \<le> 13) \<or> (28 \<le> c \<and> c \<le> 32) \<or> c = 133 \<or> c = 160 \<or> c = 5760 \<or>
     (8192 \<le> c \<and> c \<le> 8202) \<or> c = 8232 \<or> c = 8233 \<or> c = 8239 \<or> c = 8287 \<or> c = 12288"

definition py_strip :: "pystr \<Rightarrow> pystr" where
  "py_strip s = rev (dropWhile py_isspace (rev (dropWhile py_isspace s)))"

section \<open>Binary64 floats\<close>

text \<open>
  A Python float is an IEEE 754 binary64 number: a finite value, which is the rational
  \<open>m * 2 ^ e\<close> for integers \<open>\<bar>m\<bar> < 2 ^ 53\<close> and \<open>- 1074 \<le> e \<le> 971\<close>, the negative
  zero, an infinity or a NaN. \<open>Fin 0\<close> is the positive zero.
\<close>

datatype fl64 = Fin rat | NegZero | PInf | NInf | NaN

text \<open>The number of binary digits of a natural number, and the powers of two.\<close>

fun bits :: "nat \<Rightarrow> nat" where
  "bits n = (if n = 0 then 0 else Suc (bits (n div 2)))"

definition pow2 :: "int \<Rightarrow> rat" where
  "pow2 e = (if 0 \<le> e then 2 ^ nat e else 1 / 2 ^ nat (- e))"

text \<open>
  For \<open>x > 0\<close>, the integer \<open>k\<close> with \<open>2 ^ k \<le> x < 2 ^ (k + 1)\<close>: from the digits of
  \<open>\<lfloor>x\<rfloor>\<close> when \<open>x \<ge> 1\<close>, and from the digits of \<open>\<lceil>1 / x\<rceil> - 1\<close> otherwise.
\<close>

definition ilog2 :: "rat \<Rightarrow> int" where
  "ilog2 x =
     (if 1 \<le> x then int (bits (nat \<lfloor>x\<rfloor>)) - 1
      else - int (bits (nat (- \<lfloor>- (1 / x)\<rfloor> - 1))))"

text \<open>The nearest integer, a tie going to the even one.\<close>

definition round_half_even :: "rat \<Rightarrow> int" where
  "round_half_even x =
     (if x - of_int \<lfloor>x\<rfloor> < 1 / 2 then \<lfloor>x\<rfloor>
      else if 1 / 2 < x - of_int \<lfloor>x\<rfloor> then \<lfloor>x\<rfloor> + 1
      else if even \<lfloor>x\<rfloor> then \<lfloor>x\<rfloor> else \<lfloor>x\<rfloor> + 1)"

text \<open>
  Rounding a real result to binary64, round-to-nearest, ties to even. A non-zero \<open>x\<close>
  with \<open>2 ^ k \<le> \<bar>x\<bar> < 2 ^ (k + 1)\<close> is rounded to a multiple of \<open>2 ^ e\<close> for
  \<open>e = max (k - 52) (- 1074)\<close> (\<open>fl_scale\<close>): 53 significant bits, fewer below the
  smallest normal number. A rounded value of magnitude \<open>2 ^ 1024\<close> or more overflows to
  the infinity of the sign of \<open>x\<close>, one that is zero underflows to the zero of the sign of
  \<open>x\<close> (\<open>fl_pack\<close>).
\<close>

definition fl_scale :: "rat \<Rightarrow> int \<Rightarrow> rat" where
  "fl_scale x e = of_int (round_half_even (x / pow2 e)) * pow2 e"

definition fl_pack :: "rat \<Rightarrow> rat \<Rightarrow> fl64" where
  "fl_pack x y =
     (if 2 ^ 1024 \<le> \<bar>y\<bar> then (if 0 < x then PInf else NInf)
      else if y = 0 then (if 0 < x then Fin 0 else NegZero)
      else Fin y)"

definition fl_round :: "rat \<Rightarrow> fl64" where
  "fl_round x =
     (if x = 0 then Fin 0
      else fl_pack x (fl_scale x (max (ilog2 \<bar>x\<bar> - 52) (- 1074))))"

text \<open>
  \<^verbatim>\<open>f - c\<close>, \<^verbatim>\<open>f / c\<close> and \<^verbatim>\<open>f * c\<close> for a float \<open>f\<close> and a constant \<open>c\<close> that is a
  positive finite float (the source has \<^verbatim>\<open>- 1\<close>, \<^verbatim>\<open>/ 9\<close> and \<^verbatim>\<open>* 100\<close>): the exact
  result, rounded. A difference that is exactly zero is the positive zero; infinities and
  NaN stay what they are, and so does a zero that is divided or multiplied.
\<close>

fun fl_sub :: "fl64 \<Rightarrow> rat \<Rightarrow> fl64" where
  "fl_sub (Fin a) c = fl_round (a - c)"
| "fl_sub NegZero c = fl_round (- c)"
| "fl_sub f c = f"

fun fl_div :: "fl64 \<Rightarrow> rat \<Rightarrow> fl64" where
  "fl_div (Fin a) c = fl_round (a / c)"
| "fl_div f c = f"

fun fl_mul :: "fl64 \<Rightarrow> rat \<Rightarrow> fl64" where
  "fl_mul (Fin a) c = fl_round (a * c)"
| "fl_mul f c = f"

section \<open>JSON values, truthiness and exceptions\<close>

text \<open>
  The values the client handles are what \<^verbatim>\<open>r.json()\<close> returns: \<^verbatim>\<open>None\<close>, booleans,
  integers, floats, strings, lists and dicts. A dict is an association list that is read
  with \<^const>\<open>map_of\<close>. \<^verbatim>\<open>json.loads\<close> reads \<^verbatim>\<open>NaN\<close> and \<^verbatim>\<open>Infinity\<close> too, so a float
  is any binary64 value.
\<close>

datatype json =
    JNull
  | JBool bool
  | JInt int
  | JFloat fl64
  | JStr pystr
  | JArr "json list"
  | JObj "(pystr \<times> json) list"

text \<open>\<^verbatim>\<open>bool(x)\<close>, the test behind \<^verbatim>\<open>not x\<close>, \<^verbatim>\<open>x or y\<close> and \<^verbatim>\<open>if x\<close>.\<close>

fun truthy :: "json \<Rightarrow> bool" where
  "truthy JNull = False"
| "truthy (JBool b) = b"
| "truthy (JInt n) = (n \<noteq> 0)"
| "truthy (JFloat f) = (f \<noteq> Fin 0 \<and> f \<noteq> NegZero)"
| "truthy (JStr s) = (s \<noteq> [])"
| "truthy (JArr xs) = (xs \<noteq> [])"
| "truthy (JObj kvs) = (kvs \<noteq> [])"

text \<open>
  The exceptions that can arise. \<open>ConnectionError\<close> stands for whatever
  \<^verbatim>\<open>requests.request\<close> itself raises, \<open>HTTPError\<close> (with the status code) for what
  \<^verbatim>\<open>raise_for_status\<close> raises and \<open>JSONDecodeError\<close> for a body that is not JSON.
\<close>

datatype exc =
    TypeError
  | KeyError pystr
  | ValueError
  | AttributeError
  | IndexError
  | OverflowError
  | ConnectionError
  | HTTPError nat
  | JSONDecodeError

text \<open>Sequencing of computations that may raise: the first exception propagates.\<close>

definition try_bind :: "exc + 'a \<Rightarrow> ('a \<Rightarrow> exc + 'b) \<Rightarrow> exc + 'b" where
  "try_bind m f = (case m of Inl e \<Rightarrow> Inl e | Inr v \<Rightarrow> f v)"

text \<open>A list comprehension \<^verbatim>\<open>[f(x) for x in xs]\<close> whose body may raise.\<close>

fun comprehension :: "('a \<Rightarrow> exc + 'b) \<Rightarrow> 'a list \<Rightarrow> exc + 'b list" where
  "comprehension f [] = Inr []"
| "comprehension f (x # xs) =
     try_bind (f x) (\<lambda>y. try_bind (comprehension f xs) (\<lambda>ys. Inr (y # ys)))"

text \<open>\<^verbatim>\<open>x[k]\<close> for a string key: only a dict can be subscripted by a string.\<close>

fun py_getitem :: "json \<Rightarrow> pystr \<Rightarrow> exc + json" where
  "py_getitem (JObj d) k = (case map_of d k of None \<Rightarrow> Inl (KeyError k) | Some v \<Rightarrow> Inr v)"
| "py_getitem _ k = Inl TypeError"

text \<open>\<^verbatim>\<open>x.get(k, default)\<close>: only a dict has the method.\<close>

fun py_get :: "json \<Rightarrow> pystr \<Rightarrow> json \<Rightarrow> exc + json" where
  "py_get (JObj d) k dflt = Inr (case map_of d k of None \<Rightarrow> dflt | Some v \<Rightarrow> v)"
| "py_get _ k dflt = Inl AttributeError"

text \<open>\<^verbatim>\<open>xs[i]\<close> on a list, for an index \<open>i \<ge> 0\<close>.\<close>

definition py_index :: "'a list \<Rightarrow> nat \<Rightarrow> exc + 'a" where
  "py_index xs i = (if i < length xs then Inr (xs ! i) else Inl IndexError)"

text \<open>
  \<^verbatim>\<open>for x in v\<close>: a list yields its elements, a dict its keys, a string its characters;
  nothing else is iterable.
\<close>

fun py_iter :: "json \<Rightarrow> exc + json list" where
  "py_iter (JArr xs) = Inr xs"
| "py_iter (JObj d) = Inr (map (\<lambda>kv. JStr (fst kv)) d)"
| "py_iter (JStr s) = Inr (map (\<lambda>c. JStr [c]) s)"
| "py_iter _ = Inl TypeError"

text \<open>
  \<^verbatim>\<open>x[:8]\<close>: strings and lists can be sliced. (Slicing a dict raises as well:
  \<^verbatim>\<open>TypeError\<close> up to Python 3.11 and \<^verbatim>\<open>KeyError\<close> from 3.12 on; the model says
  \<open>TypeError\<close>.)
\<close>

fun py_slice8 :: "json \<Rightarrow> exc + json" where
  "py_slice8 (JStr s) = Inr (JStr (take 8 s))"
| "py_slice8 (JArr xs) = Inr (JArr (take 8 xs))"
| "py_slice8 _ = Inl TypeError"

section \<open>The environment of the client\<close>

record http_request =
  req_method :: pystr
  req_url :: pystr
  req_headers :: "(pystr \<times> pystr) list"
  req_json :: "json option"
  req_timeout :: "nat option"

text \<open>A response: its status code and its body (\<open>None\<close> when the body is not JSON).\<close>

record response =
  status_code :: nat
  body :: "json option"

text \<open>
  Everything the program takes from outside: the two settings read from the environment
  at start-up, the backend, and the library functions whose results are not modelled
  further. The backend answers a request depending on the requests that came before it
  (a delete changes what the next list returns).
\<close>

record pyenv =
  API_URL :: pystr
  API_TOKEN :: pystr
  server :: "http_request list \<Rightarrow> http_request \<Rightarrow> exc + response"
  str_exc :: "exc \<Rightarrow> pystr"
  repr :: "json \<Rightarrow> pystr"
  float_of_str :: "pystr \<Rightarrow> exc + fl64"
  isodate :: "pystr \<Rightarrow> exc + pystr"

text \<open>
  \<open>str_exc\<close> is \<^verbatim>\<open>str(exc)\<close>; \<open>repr\<close> is \<^verbatim>\<open>str(v)\<close> on numbers, lists and dicts;
  \<open>float_of_str\<close> is \<^verbatim>\<open>float(s)\<close> on a string; \<open>isodate\<close> is
  \<^verbatim>\<open>datetime.fromisoformat(s).strftime("%Y-%m-%d")\<close>.

  \<^verbatim>\<open>str(v)\<close>, which an f-string applies to each value it interpolates:
\<close>

fun py_str :: "pyenv \<Rightarrow> json \<Rightarrow> pystr" where
  "py_str E (JStr s) = s"
| "py_str E JNull = ascii ''None''"
| "py_str E (JBool b) = (if b then ascii ''True'' else ascii ''False'')"
| "py_str E v = repr E v"

text \<open>The state threaded through every operation is the log of the requests sent.\<close>

type_synonym log = "http_request list"

text \<open>
  \<^verbatim>\<open>
  def _auth_headers(token):
      return {"Authorization": f"Bearer {token}"} if token else {}

  def _request(method, url, token, **kwargs):
      headers = kwargs.pop("headers", {})
      headers.update(_auth_headers(token))
      return requests.request(method, url, headers=headers, **kwargs)
  \<close>
  No caller passes \<^verbatim>\<open>headers\<close>; the keyword arguments in use are \<^verbatim>\<open>json\<close> and
  \<^verbatim>\<open>timeout\<close>.
\<close>

definition u_auth_headers :: "pystr \<Rightarrow> (pystr \<times> pystr) list" where
  "u_auth_headers token =
     (if token \<noteq> [] then [(ascii ''Authorization'', ascii ''Bearer '' @ token)] else [])"

definition u_request ::
  "pyenv \<Rightarrow> pystr \<Rightarrow> pystr \<Rightarrow> pystr \<Rightarrow> json option \<Rightarrow> nat option \<Rightarrow> log
     \<Rightarrow> (exc + response) \<times> log" where
  "u_request E method url token js tmo lg =
     (let rq = \<lparr>req_method = method, req_url = url, req_headers = u_auth_headers token,
                req_json = js, req_timeout = tmo\<rparr>
      in (server E lg rq, lg @ [rq]))"

text \<open>\<^verbatim>\<open>r.raise_for_status()\<close> and \<^verbatim>\<open>r.json()\<close>.\<close>

definition raise_for_status :: "response \<Rightarrow> exc + unit" where
  "raise_for_status r =
     (if 400 \<le> status_code r \<and> status_code r < 600 then Inl (HTTPError (status_code r))
      else Inr ())"

definition json_of :: "response \<Rightarrow> exc + json" where
  "json_of r = (case body r of None \<Rightarrow> Inl JSONDecodeError | Some j \<Rightarrow> Inr j)"

text \<open>The prefix \<^verbatim>\<open>"X "\<close> of an error message, X being the cross mark U+274C.\<close>

definition CROSS :: pystr where
  "CROSS = [10060, 32]"

text \<open>The prefix \<^verbatim>\<open>"V "\<close> of a success message (V: the check mark U+2705) and
  the prefix of a warning (the warning sign U+26A0 U+FE0F).\<close>

definition CHECK :: pystr where
  "CHECK = [9989, 32]"

definition WARN :: pystr where
  "WARN = [9888, 65039, 32]"

section \<open>API wrappers\<close>

text \<open>
  \<^verbatim>\<open>
  def list_notes(api_url, token):
      r = _request("GET", f"{api_url}/notes", token)
      r.raise_for_status()
      return [(n["id"], n["name"], n["status"]) for n in r.json()]
  \<close>
\<close>

type_synonym note_row = "json \<times> json \<times> json"

definition list_notes :: "pyenv \<Rightarrow> pystr \<Rightarrow> pystr \<Rightarrow> log \<Rightarrow> (exc + note_row list) \<times> log" where
  "list_notes E api_url token lg =
     (let (r, lg') = u_request E (ascii ''GET'') (api_url @ ascii ''/notes'') token None None lg
      in (try_bind r (\<lambda>r. try_bind (raise_for_status r) (\<lambda>_. try_bind (json_of r) (\<lambda>j.
            try_bind (py_iter j) (comprehension (\<lambda>n.
              try_bind (py_getitem n (ascii ''id'')) (\<lambda>i.
              try_bind (py_getitem n (ascii ''name'')) (\<lambda>nm.
              try_bind (py_getitem n (ascii ''status'')) (\<lambda>st. Inr (i, nm, st))))))))),
          lg'))"

text \<open>
  \<^verbatim>\<open>
  def process_note(api_url, token, note_id):
      try:
          r = _request("POST", f"{api_url}/notes/{note_id}/process", token, timeout=120)
          r.raise_for_status()
          msg = r.json()
          return True, f"V Generated {msg['concepts_generated']} concepts."
      except Exception as exc:
          return False, f"X {exc}"
  \<close>
\<close>

definition process_note :: "pyenv \<Rightarrow> pystr \<Rightarrow> pystr \<Rightarrow> pystr \<Rightarrow> log \<Rightarrow> (bool \<times> pystr) \<times> log" where
  "process_note E api_url token note_id lg =
     (let (r, lg') = u_request E (ascii ''POST'')
                       (api_url @ ascii ''/notes/'' @ note_id @ ascii ''/process'') token
                       None (Some 120) lg
      in (case try_bind r (\<lambda>r. try_bind (raise_for_status r) (\<lambda>_. try_bind (json_of r) (\<lambda>msg.
                 py_getitem msg (ascii ''concepts_generated'')))) of
            Inl e \<Rightarrow> (False, CROSS @ str_exc E e)
          | Inr n \<Rightarrow> (True, CHECK @ ascii ''Generated '' @ py_str E n @ ascii '' concepts.''),
          lg'))"

text \<open>
  \<^verbatim>\<open>
  def list_concepts(api_url, token, note_id):
      r = _request("GET", f"{api_url}/notes/{note_id}/concepts", token)
      r.raise_for_status()
      return r.json()
  \<close>
\<close>

definition list_concepts :: "pyenv \<Rightarrow> pystr \<Rightarrow> pystr \<Rightarrow> pystr \<Rightarrow> log \<Rightarrow> (exc + json) \<times> log" where
  "list_concepts E api_url token note_id lg =
     (let (r, lg') = u_request E (ascii ''GET'')
                       (api_url @ ascii ''/notes/'' @ note_id @ ascii ''/concepts'') token
                       None None lg
      in (try_bind r (\<lambda>r. try_bind (raise_for_status r) (\<lambda>_. json_of r)), lg'))"

text \<open>
  \<^verbatim>\<open>
  def create_quiz(api_url, token, note_ids, concept_limit, question_limit, mode):
      payload = {"note_ids": note_ids, "concept_limit": concept_limit,
                 "question_limit": question_limit, "mode": mode}
      try:
          r = _request("POST", f"{api_url}/quizzes", token, json=payload)
          r.raise_for_status()
          return True, r.json()
      except Exception as exc:
          return False, f"X {exc}"
  \<close>
\<close>

definition create_quiz ::
  "pyenv \<Rightarrow> pystr \<Rightarrow> pystr \<Rightarrow> pystr list \<Rightarrow> json \<Rightarrow> json \<Rightarrow> json \<Rightarrow> log \<Rightarrow> (bool \<times> json) \<times> log" where
  "create_quiz E api_url token note_ids concept_limit question_limit mode lg =
     (let payload = JObj [(ascii ''note_ids'', JArr (map JStr note_ids)),
                          (ascii ''concept_limit'', concept_limit),
                          (ascii ''question_limit'', question_limit),
                          (ascii ''mode'', mode)];
          (r, lg') = u_request E (ascii ''POST'') (api_url @ ascii ''/quizzes'') token
                       (Some payload) None lg
      in (case try_bind r (\<lambda>r. try_bind (raise_for_status r) (\<lambda>_. json_of r)) of
            Inl e \<Rightarrow> (False, JStr (CROSS @ str_exc E e))
          | Inr j \<Rightarrow> (True, j),
          lg'))"

text \<open>
  \<^verbatim>\<open>
  def submit_quiz(api_url, token, quiz_id, responses):
      payload = {"responses": responses}
      try:
          r = _request("POST", f"{api_url}/quizzes/{quiz_id}/submit", token, json=payload)
          r.raise_for_status()
          return True, r.json()
      except Exception as exc:
          return False, f"X {exc}"
  \<close>
  The quiz id is whatever the session state holds, so the f-string applies \<^verbatim>\<open>str\<close>.
\<close>

definition submit_quiz ::
  "pyenv \<Rightarrow> pystr \<Rightarrow> pystr \<Rightarrow> json \<Rightarrow> pystr list \<Rightarrow> log \<Rightarrow> (bool \<times> json) \<times> log" where
  "submit_quiz E api_url token quiz_id responses lg =
     (let payload = JObj [(ascii ''responses'', JArr (map JStr responses))];
          (r, lg') = u_request E (ascii ''POST'')
                       (api_url @ ascii ''/quizzes/'' @ py_str E quiz_id @ ascii ''/submit'') token
                       (Some payload) None lg
      in (case try_bind r (\<lambda>r. try_bind (raise_for_status r) (\<lambda>_. json_of r)) of
            Inl e \<Rightarrow> (False, JStr (CROSS @ str_exc E e))
          | Inr j \<Rightarrow> (True, j),
          lg'))"

text \<open>
  \<^verbatim>\<open>
  def delete_note(api_url, token, note_id):
      try:
          r = _request("DELETE", f"{api_url}/notes/{note_id}", token)
          r.raise_for_status()
          return True, r.json()
      except Exception as exc:
          return False, f"X {exc}"
  \<close>
\<close>

definition delete_note :: "pyenv \<Rightarrow> pystr \<Rightarrow> pystr \<Rightarrow> pystr \<Rightarrow> log \<Rightarrow> (bool \<times> json) \<times> log" where
  "delete_note E api_url token note_id lg =
     (let (r, lg') = u_request E (ascii ''DELETE'') (api_url @ ascii ''/notes/'' @ note_id) token
                       None None lg
      in (case try_bind r (\<lambda>r. try_bind (raise_for_status r) (\<lambda>_. json_of r)) of
            Inl e \<Rightarrow> (False, JStr (CROSS @ str_exc E e))
          | Inr j \<Rightarrow> (True, j),
          lg'))"

section \<open>The identifier codec\<close>

text \<open>
  \<^verbatim>\<open>
  def _format_note_choice(row):
      nid, name, _status = row
      return f"{name} -- {nid}"

  def _format_note_choices(rows):
      return [_format_note_choice(r) for r in rows]
  \<close>
\<close>

fun u_format_note_choice :: "pyenv \<Rightarrow> note_row \<Rightarrow> pystr" where
  "u_format_note_choice E (nid, name, status) = py_str E name @ SEP @ py_str E nid"

definition u_format_note_choices :: "pyenv \<Rightarrow> note_row list \<Rightarrow> pystr list" where
  "u_format_note_choices E rows = map (u_format_note_choice E) rows"

text \<open>
  \<^verbatim>\<open>
  def _format_quiz_choice(q):
      qid = q.get("id", "")
      qname = q.get("name") or f"Quiz {qid[:8]}"
      return f"{qname} -- {qid}"
  \<close>
  \<open>quiz_qname\<close> is the second statement, the value bound to \<^verbatim>\<open>qname\<close>.
\<close>

definition quiz_qname :: "pyenv \<Rightarrow> json \<Rightarrow> json \<Rightarrow> exc + json" where
  "quiz_qname E q qid =
     try_bind (py_get q (ascii ''name'') JNull) (\<lambda>nm.
       if truthy nm then Inr nm
       else try_bind (py_slice8 qid) (\<lambda>s. Inr (JStr (ascii ''Quiz '' @ py_str E s))))"

definition u_format_quiz_choice :: "pyenv \<Rightarrow> json \<Rightarrow> exc + pystr" where
  "u_format_quiz_choice E q =
     try_bind (py_get q (ascii ''id'') (JStr [])) (\<lambda>qid.
     try_bind (quiz_qname E q qid) (\<lambda>qname.
     Inr (py_str E qname @ SEP @ py_str E qid)))"

text \<open>
  \<^verbatim>\<open>
  def _extract_id_from_display(sel):
      if not sel:
          return None
      if " -- " in sel:
          return sel.split(" -- ")[-1]
      return sel
  \<close>
  \<^verbatim>\<open>not sel\<close> holds for \<^verbatim>\<open>None\<close> and for the empty string. The list that
  \<^verbatim>\<open>split\<close> returns is never empty (\<open>split_from_not_Nil\<close>), so \<^verbatim>\<open>[-1]\<close> is its
  last element.
\<close>

definition u_extract_id_from_display :: "pystr option \<Rightarrow> pystr option" where
  "u_extract_id_from_display sel =
     (case sel of
        None \<Rightarrow> None
      | Some s \<Rightarrow>
          if s = [] then None
          else if py_contains SEP s then Some (last (py_split s SEP))
          else Some s)"

text \<open>
  \<^verbatim>\<open>
  def _extract_ids_from_display_list(sel_list):
      if not sel_list:
          return []
      return [s.split(" -- ")[-1] if " -- " in s else s for s in sel_list]
  \<close>
\<close>

definition u_extract_ids_from_display_list :: "pystr list option \<Rightarrow> pystr list" where
  "u_extract_ids_from_display_list sel_list =
     (case sel_list of
        None \<Rightarrow> []
      | Some ss \<Rightarrow> map (\<lambda>s. if py_contains SEP s then last (py_split s SEP) else s) ss)"

text \<open>\<^verbatim>\<open>not nid\<close> for an optional string.\<close>

definition not_str :: "pystr option \<Rightarrow> bool" where
  "not_str nid \<longleftrightarrow> nid = None \<or> nid = Some []"

section \<open>Session state and what a handler returns\<close>

text \<open>
  \<^verbatim>\<open>cfg_state = gr.State({"last_note_id": None, "last_quiz_id": None})\<close>: the session
  state is a dict, compared by its key-value pairs. \<^verbatim>\<open>cfg.get(k)\<close> is \<^verbatim>\<open>None\<close> for
  an absent key, \<^verbatim>\<open>cfg.copy()\<close> is a new dict with the same pairs, and a handler
  never mutates the dict it was given.
\<close>

type_synonym cfg = "pystr \<rightharpoonup> json"

definition cfg_state :: cfg where
  "cfg_state = [ascii ''last_note_id'' \<mapsto> JNull, ascii ''last_quiz_id'' \<mapsto> JNull]"

definition cfg_get :: "cfg \<Rightarrow> pystr \<Rightarrow> json" where
  "cfg_get c k = (case c k of None \<Rightarrow> JNull | Some v \<Rightarrow> v)"

text \<open>
  \<^verbatim>\<open>gr.update(...)\<close> is the record of its keyword arguments: a field is \<open>None\<close> when
  the argument is not passed, and \<open>Some VNone\<close> is an explicit \<^verbatim>\<open>value=None\<close>.
\<close>

datatype gr_value = VNone | VStr pystr | VRows "json list list"

record gr_update =
  upd_choices :: "pystr list option"
  upd_value :: "gr_value option"
  upd_interactive :: "bool option"

text \<open>
  The components of a returned tuple, for the one handler whose tuples differ in length.
\<close>

datatype out_value = OJson json | OUpdate gr_update | OState cfg

section \<open>Notes tab\<close>

text \<open>
  \<^verbatim>\<open>
  notes_df = gr.Dataframe(headers=["Name", "Status"], datatype=["str", "str"], ...)

  def _refresh_notes(_cfg):
      notes = list_notes(API_URL, API_TOKEN)
      rows = [[n[1], n[2]] for n in notes]
      choices = _format_note_choices(notes)
      selected_val = choices[0] if choices else None
      return rows, gr.update(choices=choices, value=selected_val)
  \<close>
  \<^verbatim>\<open>list_notes\<close> does not catch what the request raises, so the handler can raise.
\<close>

definition notes_df_headers :: "pystr list" where
  "notes_df_headers = [ascii ''Name'', ascii ''Status'']"

definition u_refresh_notes ::
  "pyenv \<Rightarrow> cfg \<Rightarrow> log \<Rightarrow> (exc + json list list \<times> gr_update) \<times> log" where
  "u_refresh_notes E cfg lg =
     (let (res, lg') = list_notes E (API_URL E) (API_TOKEN E) lg
      in (try_bind res (\<lambda>notes.
            let rows = map (\<lambda>n. [fst (snd n), snd (snd n)]) notes;
                choices = u_format_note_choices E notes;
                selected_val = (if choices \<noteq> [] then VStr (hd choices) else VNone)
            in Inr (rows, \<lparr>upd_choices = Some choices, upd_value = Some selected_val,
                           upd_interactive = None\<rparr>)),
          lg'))"

text \<open>
  \<^verbatim>\<open>
  def _process(cfg, sel_note_display):
      nid = _extract_id_from_display(sel_note_display)
      if not nid:
          return "! No note selected.", cfg
      ok, msg = process_note(API_URL, API_TOKEN, nid)
      new_cfg = cfg.copy()
      new_cfg["last_note_id"] = nid if ok else cfg.get("last_note_id")
      return msg, new_cfg
  \<close>
\<close>

definition u_process :: "pyenv \<Rightarrow> cfg \<Rightarrow> pystr option \<Rightarrow> log \<Rightarrow> (pystr \<times> cfg) \<times> log" where
  "u_process E cfg sel_note_display lg =
     (let nid = u_extract_id_from_display sel_note_display
      in if not_str nid then ((WARN @ ascii ''No note selected.'', cfg), lg)
         else
           let ((ok, msg), lg') = process_note E (API_URL E) (API_TOKEN E) (the nid) lg;
               new_cfg = cfg(ascii ''last_note_id'' \<mapsto>
                              (if ok then JStr (the nid) else cfg_get cfg (ascii ''last_note_id'')))
           in ((msg, new_cfg), lg'))"

text \<open>
  \<^verbatim>\<open>
  def _delete_note(cfg, sel_note_display):
      nid = _extract_id_from_display(sel_note_display)
      if not nid:
          return "! No note selected.", [], gr.update(choices=[], value=None)
      ok, msg = delete_note(API_URL, API_TOKEN, nid)
      if not ok:
          return f"X {msg}", [], gr.update(choices=[], value=None)
      notes = list_notes(API_URL, API_TOKEN)
      rows = [[n[0], n[1], n[2]] for n in notes]
      choices = _format_note_choices(notes)
      upd_selected = gr.update(choices=choices, value=None)
      return "V Note deleted.", rows, upd_selected
  \<close>
  The second component goes to \<^verbatim>\<open>notes_df\<close>, the third to the note selector.
\<close>

definition u_delete_note ::
  "pyenv \<Rightarrow> cfg \<Rightarrow> pystr option \<Rightarrow> log \<Rightarrow> (exc + pystr \<times> json list list \<times> gr_update) \<times> log" where
  "u_delete_note E cfg sel_note_display lg =
     (let nid = u_extract_id_from_display sel_note_display;
          cleared = \<lparr>upd_choices = Some [], upd_value = Some VNone, upd_interactive = None\<rparr>
      in if not_str nid then (Inr (WARN @ ascii ''No note selected.'', [], cleared), lg)
         else
           let ((ok, msg), lg1) = delete_note E (API_URL E) (API_TOKEN E) (the nid) lg
           in if \<not> ok then (Inr (CROSS @ py_str E msg, [], cleared), lg1)
              else
                let (res, lg2) = list_notes E (API_URL E) (API_TOKEN E) lg1
                in (try_bind res (\<lambda>notes.
                      let rows = map (\<lambda>n. [fst n, fst (snd n), snd (snd n)]) notes;
                          choices = u_format_note_choices E notes;
                          upd_selected = \<lparr>upd_choices = Some choices, upd_value = Some VNone,
                                          upd_interactive = None\<rparr>
                      in Inr (CHECK @ ascii ''Note deleted.'', rows, upd_selected)),
                    lg2))"

section \<open>Concepts tab\<close>

text \<open>
  \<^verbatim>\<open>float(x)\<close>: of an integer the nearest float, or \<^verbatim>\<open>OverflowError\<close> when that is
  out of range; of a float the float itself; of \<^verbatim>\<open>True\<close> one; of a string what it
  parses to; \<^verbatim>\<open>TypeError\<close> for \<^verbatim>\<open>None\<close>, lists and dicts.
\<close>

fun py_float :: "pyenv \<Rightarrow> json \<Rightarrow> exc + fl64" where
  "py_float E (JInt n) =
     (case fl_round (of_int n) of
        PInf \<Rightarrow> Inl OverflowError
      | NInf \<Rightarrow> Inl OverflowError
      | f \<Rightarrow> Inr f)"
| "py_float E (JFloat f) = Inr f"
| "py_float E (JBool b) = Inr (Fin (if b then 1 else 0))"
| "py_float E (JStr s) = float_of_str E s"
| "py_float E _ = Inl TypeError"

text \<open>
  \<^verbatim>\<open>round(f, n)\<close> for \<open>n \<ge> 0\<close>: CPython rounds the exact value of a finite float to
  \<open>n\<close> decimals, a tie going to the even digit, and returns the float nearest to that
  decimal (\<open>round_pack\<close>): the zero of the sign of \<open>f\<close> when the decimal is zero,
  \<^verbatim>\<open>OverflowError\<close> when it is out of range. Infinities, NaN and the negative zero
  round to themselves.
\<close>

definition round_pack :: "rat \<Rightarrow> rat \<Rightarrow> exc + fl64" where
  "round_pack x d =
     (if d = 0 then Inr (if x < 0 then NegZero else Fin 0)
      else case fl_round d of
             PInf \<Rightarrow> Inl OverflowError
           | NInf \<Rightarrow> Inl OverflowError
           | r \<Rightarrow> Inr r)"

fun py_round :: "fl64 \<Rightarrow> nat \<Rightarrow> exc + fl64" where
  "py_round (Fin x) n = round_pack x (of_int (round_half_even (x * 10 ^ n)) / 10 ^ n)"
| "py_round f n = Inr f"

text \<open>
  The four computed cells of a row, each from what \<^verbatim>\<open>s.get(...)\<close> returned:
  \<^verbatim>\<open>
  "" if not (x := s.get("stability")) else round(float(x), 2)
  "" if not (x := s.get("difficulty")) else round(((float(x) - 1) / 9) * 100, 2)
  "" if not (x := s.get("due", "")) else datetime.fromisoformat(x).strftime("%Y-%m-%d")
  "" if not (x := s.get("last_review", "")) else datetime.fromisoformat(x).strftime("%Y-%m-%d")
  \<close>
  \<^verbatim>\<open>fromisoformat\<close> raises \<^verbatim>\<open>TypeError\<close> unless its argument is a string.
\<close>

definition stability_cell :: "pyenv \<Rightarrow> json \<Rightarrow> exc + json" where
  "stability_cell E x =
     (if \<not> truthy x then Inr (JStr [])
      else try_bind (py_float E x) (\<lambda>f.
           try_bind (py_round f 2) (\<lambda>r. Inr (JFloat r))))"

definition difficulty_cell :: "pyenv \<Rightarrow> json \<Rightarrow> exc + json" where
  "difficulty_cell E x =
     (if \<not> truthy x then Inr (JStr [])
      else try_bind (py_float E x) (\<lambda>f.
           try_bind (py_round (fl_mul (fl_div (fl_sub f 1) 9) 100) 2) (\<lambda>r. Inr (JFloat r))))"

definition date_cell :: "pyenv \<Rightarrow> json \<Rightarrow> exc + json" where
  "date_cell E x =
     (if \<not> truthy x then Inr (JStr [])
      else case x of
             JStr s \<Rightarrow> try_bind (isodate E s) (\<lambda>d. Inr (JStr d))
           | _ \<Rightarrow> Inl TypeError)"

text \<open>
  The body of the loop of \<^verbatim>\<open>_load_concepts\<close>, for one concept \<^verbatim>\<open>c\<close>:
  \<^verbatim>\<open>
  s = c.get("srs_info", {})
  rows.append([c.get("name", ""), c.get("content", ""), <the four cells above>])
  \<close>
  The elements of the list are evaluated from left to right.
\<close>

definition concept_row :: "pyenv \<Rightarrow> json \<Rightarrow> exc + json list" where
  "concept_row E c =
     try_bind (py_get c (ascii ''srs_info'') (JObj [])) (\<lambda>s.
     try_bind (py_get c (ascii ''name'') (JStr [])) (\<lambda>name.
     try_bind (py_get c (ascii ''content'') (JStr [])) (\<lambda>content.
     try_bind (try_bind (py_get s (ascii ''stability'') JNull) (stability_cell E)) (\<lambda>stab.
     try_bind (try_bind (py_get s (ascii ''difficulty'') JNull) (difficulty_cell E)) (\<lambda>diff.
     try_bind (try_bind (py_get s (ascii ''due'') (JStr [])) (date_cell E)) (\<lambda>due.
     try_bind (try_bind (py_get s (ascii ''last_review'') (JStr [])) (date_cell E)) (\<lambda>rev.
     Inr [name, content, stab, diff, due, rev])))))))"

text \<open>
  \<^verbatim>\<open>
  def _load_concepts(_cfg, sel_note_display):
      nid = _extract_id_from_display(sel_note_display)
      if not nid:
          return []
      raw = list_concepts(API_URL, API_TOKEN, nid)
      rows = []
      for c in raw:
          ...
      return rows
  \<close>
\<close>

definition u_load_concepts ::
  "pyenv \<Rightarrow> cfg \<Rightarrow> pystr option \<Rightarrow> log \<Rightarrow> (exc + json list list) \<times> log" where
  "u_load_concepts E cfg sel_note_display lg =
     (let nid = u_extract_id_from_display sel_note_display
      in if not_str nid then (Inr [], lg)
         else
           let (raw, lg') = list_concepts E (API_URL E) (API_TOKEN E) (the nid) lg
           in (try_bind raw (\<lambda>raw. try_bind (py_iter raw) (comprehension (concept_row E))), lg'))"

section \<open>Quizzes tab\<close>

text \<open>
  \<^verbatim>\<open>
  def _create_quiz(cfg, sel_note_displays, climit, qlimit, mode):
      note_ids = _extract_ids_from_display_list(sel_note_displays)
      if not note_ids:
          return {"error": "Select at least one note."}, gr.update(value=[])
      ok, out = create_quiz(API_URL, API_TOKEN, note_ids, climit, qlimit, mode)
      if not ok:
          return {"error": out}, gr.update(value=[])
      new_cfg = cfg.copy()
      new_cfg["last_quiz_id"] = out["id"]
      rows = [[q["question"], ""] for q in out.get("questions", [])]
      return out, gr.update(value=rows), new_cfg

  create_quiz_btn.click(_create_quiz, inputs=[...],
      outputs=[gr.JSON(label="Quiz metadata", visible=False), active_quiz_df, cfg_state])
  \<close>
  The returned tuple is the list of its components.
\<close>

definition create_quiz_outputs :: "string list" where
  "create_quiz_outputs = [''quiz_metadata'', ''active_quiz_df'', ''cfg_state'']"

definition u_create_quiz ::
  "pyenv \<Rightarrow> cfg \<Rightarrow> pystr list option \<Rightarrow> json \<Rightarrow> json \<Rightarrow> json \<Rightarrow> log
     \<Rightarrow> (exc + out_value list) \<times> log" where
  "u_create_quiz E cfg sel_note_displays climit qlimit mode lg =
     (let note_ids = u_extract_ids_from_display_list sel_note_displays;
          no_rows = \<lparr>upd_choices = None, upd_value = Some (VRows []), upd_interactive = None\<rparr>
      in if note_ids = []
         then (Inr [OJson (JObj [(ascii ''error'', JStr (ascii ''Select at least one note.''))]),
                    OUpdate no_rows], lg)
         else
           let ((ok, out), lg') =
                 create_quiz E (API_URL E) (API_TOKEN E) note_ids climit qlimit mode lg
           in if \<not> ok then (Inr [OJson (JObj [(ascii ''error'', out)]), OUpdate no_rows], lg')
              else
                (try_bind (py_getitem out (ascii ''id'')) (\<lambda>qid.
                   let new_cfg = cfg(ascii ''last_quiz_id'' \<mapsto> qid)
                   in try_bind (py_get out (ascii ''questions'') (JArr [])) (\<lambda>qs.
                      try_bind (py_iter qs) (\<lambda>qs.
                      try_bind (comprehension
                                  (\<lambda>q. try_bind (py_getitem q (ascii ''question''))
                                         (\<lambda>t. Inr [t, JStr []])) qs) (\<lambda>rows.
                      Inr [OJson out,
                           OUpdate \<lparr>upd_choices = None, upd_value = Some (VRows rows),
                                    upd_interactive = None\<rparr>,
                           OState new_cfg])))),
                 lg'))"

text \<open>
  What the answer table hands to the handler: a pandas data frame (its columns by name),
  a plain list of rows, or nothing.
\<close>

datatype table = DataFrame "(pystr \<times> json list) list" | RowList "json list list" | NoTable

text \<open>
  The body of the \<^verbatim>\<open>try\<close> of \<^verbatim>\<open>_submit_quiz\<close>:
  \<^verbatim>\<open>
  if hasattr(df, "answer"):
      answers = [str(r).strip() for r in df.answer]
  else:
      answers = [str(row[1]).strip() for row in df] if df else []
  \<close>
  A data frame has the attribute when it has a column of that name; \<^verbatim>\<open>if df\<close>
  on a data frame raises \<^verbatim>\<open>ValueError\<close>, and \<^verbatim>\<open>row[1]\<close> raises
  \<^verbatim>\<open>IndexError\<close> on a row with fewer than two cells.
\<close>

definition answers_try :: "pyenv \<Rightarrow> table \<Rightarrow> exc + pystr list" where
  "answers_try E df =
     (case df of
        DataFrame cols \<Rightarrow>
          (case map_of cols (ascii ''answer'') of
             Some col \<Rightarrow> Inr (map (\<lambda>r. py_strip (py_str E r)) col)
           | None \<Rightarrow> Inl ValueError)
      | RowList rows \<Rightarrow>
          if rows \<noteq> []
          then comprehension (\<lambda>row. try_bind (py_index row 1)
                                       (\<lambda>c. Inr (py_strip (py_str E c)))) rows
          else Inr []
      | NoTable \<Rightarrow> Inr [])"

text \<open>
  The value of \<^verbatim>\<open>answers\<close> behind the \<^verbatim>\<open>try\<close>: \<^verbatim>\<open>except Exception\<close> resets it
  to the empty list.
\<close>

definition answers_of :: "pyenv \<Rightarrow> table \<Rightarrow> pystr list" where
  "answers_of E df = (case answers_try E df of Inl e \<Rightarrow> [] | Inr a \<Rightarrow> a)"

text \<open>
  \<^verbatim>\<open>
  def _submit_quiz(cfg, df):
      quiz_id = cfg.get("last_quiz_id")
      if not quiz_id:
          return {"error": "No quiz loaded in this session."}
      answers = []
      try:
          ...
      except Exception:
          answers = []
      if not answers or not all(map(bool, answers)):
          return {"error": "All questions must be attempted before submission"}
      ok, out = submit_quiz(API_URL, API_TOKEN, quiz_id, answers)
      if not ok:
          return {"error": out}
      return out
  \<close>
\<close>

definition u_submit_quiz :: "pyenv \<Rightarrow> cfg \<Rightarrow> table \<Rightarrow> log \<Rightarrow> json \<times> log" where
  "u_submit_quiz E cfg df lg =
     (let quiz_id = cfg_get cfg (ascii ''last_quiz_id'')
      in if \<not> truthy quiz_id
         then (JObj [(ascii ''error'', JStr (ascii ''No quiz loaded in this session.''))], lg)
         else
           let answers = answers_of E df
           in if answers = [] \<or> \<not> list_all (\<lambda>a. a \<noteq> []) answers
              then (JObj [(ascii ''error'',
                           JStr (ascii ''All questions must be attempted before submission''))],
                    lg)
              else
                let ((ok, out), lg') =
                      submit_quiz E (API_URL E) (API_TOKEN E) quiz_id answers lg
                in if \<not> ok then (JObj [(ascii ''error'', out)], lg') else (out, lg'))"

section \<open>A sample environment\<close>

text \<open>
  A concrete backend on which the theorems below are instantiated. It holds two notes
  until a \<^verbatim>\<open>DELETE\<close> has been sent and one afterwards, creates a quiz of one
  question, grades a submission, and fails to process a note (status 500).
\<close>

definition demo_notes :: "log \<Rightarrow> json" where
  "demo_notes lg =
     JArr ((if list_ex (\<lambda>rq. req_method rq = ascii ''DELETE'') lg then []
            else [JObj [(ascii ''id'', JStr (ascii ''n1'')),
                        (ascii ''name'', JStr (ascii ''Photosynthesis'')),
                        (ascii ''status'', JStr (ascii ''uploaded''))]]) @
           [JObj [(ascii ''id'', JStr (ascii ''n2'')),
                  (ascii ''name'', JStr (ascii ''Cells'')),
                  (ascii ''status'', JStr (ascii ''processed''))]])"

definition demo_server :: "log \<Rightarrow> http_request \<Rightarrow> exc + response" where
  "demo_server lg rq =
     (if req_method rq = ascii ''GET'' then Inr \<lparr>status_code = 200, body = Some (demo_notes lg)\<rparr>
      else if req_method rq = ascii ''DELETE''
        then Inr \<lparr>status_code = 200, body = Some (JObj [(ascii ''deleted'', JBool True)])\<rparr>
      else if req_timeout rq = Some 120 then Inr \<lparr>status_code = 500, body = None\<rparr>
      else if req_url rq = ascii ''http://localhost:5046/quizzes''
        then Inr \<lparr>status_code = 200,
                  body = Some (JObj [(ascii ''id'', JStr (ascii ''q1'')),
                                     (ascii ''questions'',
                                      JArr [JObj [(ascii ''question'', JStr (ascii ''Why?''))]])])\<rparr>
      else Inr \<lparr>status_code = 200, body = Some (JObj [(ascii ''score'', JInt 1)])\<rparr>)"

definition demo_env :: pyenv where
  "demo_env = \<lparr>API_URL = ascii ''http://localhost:5046'', API_TOKEN = ascii ''secret'',
               server = demo_server, str_exc = (\<lambda>e. ascii ''error''),
               repr = (\<lambda>v. ascii ''?''), float_of_str = (\<lambda>s. Inl ValueError),
               isodate = (\<lambda>s. Inr (take 10 s))\<rparr>"

section \<open>Basic facts\<close>

lemma try_bind_simps: "try_bind (Inr v) f = f v" "try_bind (Inl e) f = Inl e"
  by (simp_all add: try_bind_def)

lemma try_bind_Inr: "try_bind m f = Inr y \<Longrightarrow> \<exists>v. m = Inr v \<and> f v = Inr y"
  by (cases m) (simp_all add: try_bind_simps)

lemma ascii_eq_iff: "ascii a = ascii b \<longleftrightarrow> a = b"
  by (simp add: ascii_def inj_map_eq_map inj_of_char)

lemma ascii_append: "ascii a @ ascii b = ascii (a @ b)"
  by (simp add: ascii_def)

lemma floor_num [simp]:
  "\<lfloor>numeral a / numeral b :: rat\<rfloor> = numeral a div numeral b"
  "\<lfloor>- (numeral a / numeral b) :: rat\<rfloor> = - numeral a div numeral b"
  "\<lfloor>- numeral a / numeral b :: rat\<rfloor> = - numeral a div numeral b"
  "\<lfloor>1 / numeral b :: rat\<rfloor> = 1 div numeral b"
  "\<lfloor>- (1 / numeral b) :: rat\<rfloor> = - 1 div numeral b"
  using floor_divide_of_int_eq [of "numeral a" "numeral b", where ?'a = rat]
        floor_divide_of_int_eq [of "- numeral a" "numeral b", where ?'a = rat]
        floor_divide_of_int_eq [of "1" "numeral b", where ?'a = rat]
        floor_divide_of_int_eq [of "- 1" "numeral b", where ?'a = rat]
  by simp_all

lemmas fl_defs = fl_round_def fl_scale_def fl_pack_def round_pack_def
  ilog2_def round_half_even_def pow2_def

lemma ascii_simps: "ascii [] = []" "ascii (c # cs) = of_char c # ascii cs"
  by (simp_all add: ascii_def)

section \<open>Facts about splitting\<close>

lemma split_from_not_Nil: "split_from sep seg s \<noteq> []"
  by (induction sep seg s rule: split_from.induct) auto

lemma split_from_no_sep: "\<not> py_contains sep s \<Longrightarrow> split_from sep seg s = [seg @ s]"
  by (induction sep seg s rule: split_from.induct) auto

lemma contains_label: "py_contains SEP (name @ SEP @ nid)"
  by (induction name) (auto simp: SEP_def)

text \<open>
  When the label starts with a separator and the name does not end with space and dash,
  that separator lies inside the name: it cannot share its last space with the first
  space of the separator that the encoder inserted.
\<close>

lemma prefix_SEP_name:
  assumes "prefix SEP (name @ SEP @ nid)" and "\<not> suffix [32, 8212] name" and "name \<noteq> []"
  shows "\<exists>rest. name = SEP @ rest"
proof -
  from assms obtain c cs where n: "name = c # cs" by (cases name) auto
  show ?thesis
  proof (cases cs)
    case Nil
    with n assms(1) show ?thesis by (simp add: SEP_def)
  next
    case (Cons d ds)
    show ?thesis
    proof (cases ds)
      case Nil
      with n Cons assms(1,2) show ?thesis by (simp add: SEP_def)
    next
      case (Cons e es)
      with n \<open>cs = d # ds\<close> assms(1) show ?thesis by (simp add: SEP_def)
    qed
  qed
qed

lemma not_suffix_append: "\<not> suffix p (a @ b) \<Longrightarrow> \<not> suffix p b"
  by (auto simp: suffix_def)

text \<open>
  The scan over a label: every cut falls inside the name until the scan reaches the
  inserted separator, cuts there, and finds nothing to cut in the identifier.
\<close>

lemma last_split_label:
  "\<not> py_contains SEP nid \<Longrightarrow> \<not> suffix [32, 8212] name \<Longrightarrow>
     last (split_from SEP seg (name @ SEP @ nid)) = nid"
proof (induction "name" arbitrary: seg rule: length_induct)
  case (1 name)
  show ?case
  proof (cases name)
    case Nil
    then show ?thesis using 1(2) by (simp add: SEP_def split_from_no_sep)
  next
    case (Cons c cs)
    show ?thesis
    proof (cases "prefix SEP (name @ SEP @ nid)")
      case True
      then obtain rest where r: "name = SEP @ rest"
        using prefix_SEP_name 1(3) Cons by blast
      have "\<not> suffix [32, 8212] rest" using 1(3) r not_suffix_append by blast
      moreover have "length rest < length name" using r by (simp add: SEP_def)
      ultimately have ih: "last (split_from SEP [] (rest @ SEP @ nid)) = nid"
        using 1 by blast
      have l: "name @ SEP @ nid = 32 # (8212 # 32 # rest @ SEP @ nid)"
        using r by (simp add: SEP_def)
      have "prefix SEP (32 # (8212 # 32 # rest @ SEP @ nid))"
        using True l by simp
      then have "split_from SEP seg (32 # (8212 # 32 # rest @ SEP @ nid))
                 = seg # split_from SEP [] (drop (length SEP) (32 # (8212 # 32 # rest @ SEP @ nid)))"
        by (simp add: SEP_def)
      also have "drop (length SEP) (32 # (8212 # 32 # rest @ SEP @ nid)) = rest @ SEP @ nid"
        by (simp add: SEP_def)
      finally have "split_from SEP seg (name @ SEP @ nid)
                    = seg # split_from SEP [] (rest @ SEP @ nid)"
        using l by simp
      then show ?thesis using ih by (simp add: split_from_not_Nil)
    next
      case False
      have "\<not> suffix [32, 8212] cs"
        using 1(3) Cons not_suffix_append[of _ "[c]" cs] by simp
      then have ih: "last (split_from SEP (seg @ [c]) (cs @ SEP @ nid)) = nid"
        using 1 Cons by simp
      have "split_from SEP seg (name @ SEP @ nid) = split_from SEP (seg @ [c]) (cs @ SEP @ nid)"
        using False Cons by simp
      then show ?thesis using ih by simp
    qed
  qed
qed

lemma extract_label:
  assumes "\<not> py_contains SEP nid" and "\<not> suffix [32, 8212] name"
  shows "u_extract_id_from_display (Some (name @ SEP @ nid)) = Some nid"
proof -
  have "name @ SEP @ nid \<noteq> []" by (simp add: SEP_def)
  then show ?thesis
    using assms
    by (simp add: u_extract_id_from_display_def contains_label py_split_def last_split_label)
qed

section \<open>Round trip of a note label\<close>

text \<open>
  For a note whose identifier does not contain the separator and whose name does not end
  with a space followed by an em dash, decoding the label that \<open>u_format_note_choice\<close>
  builds gives back the identifier. The name may contain the separator anywhere else.
\<close>

lemma note_label_roundtrip_sufficient:
  assumes "\<not> py_contains SEP nid" and "\<not> suffix [32, 8212] name"
  shows "u_extract_id_from_display (Some (u_format_note_choice E (JStr nid, JStr name, status)))
           = Some nid"
  using assms by (simp add: extract_label)

text \<open>An instance: the note \<^verbatim>\<open>("n1", "A -- B", "uploaded")\<close>, the separator in its name.\<close>

lemma note_label_roundtrip_instance:
  "u_extract_id_from_display (Some (u_format_note_choice demo_env
       (JStr (ascii ''n1''), JStr (ascii ''A'' @ SEP @ ascii ''B''), JStr (ascii ''uploaded''))))
     = Some (ascii ''n1'')"
proof -
  have a: "\<not> py_contains SEP (ascii ''n1'')" by (simp add: SEP_def ascii_def)
  have b: "\<not> suffix [32, 8212] (ascii ''A'' @ SEP @ ascii ''B'')"
    by (simp add: SEP_def ascii_def suffix_def)
  show ?thesis
    using note_label_roundtrip_sufficient [OF a b, of demo_env "JStr (ascii ''uploaded'')"]
    by simp
qed

text \<open>
  Claim C1 says that decoding the label of any note gives back the note's identifier. The
  code does not do that for every note. The note \<^verbatim>\<open>("y", "x --", "uploaded")\<close> has the label
  \<^verbatim>\<open>"x -- -- y"\<close>. \<^verbatim>\<open>split\<close> cuts at the first separator it meets, the one made of
  the name's last two characters and the first space of the inserted separator; what is
  left, \<^verbatim>\<open>"-- y"\<close>, holds no further separator and is returned whole, so the decoder
  answers \<^verbatim>\<open>"-- y"\<close> where the identifier is \<^verbatim>\<open>"y"\<close>. The last occurrence of the
  separator in the label starts two characters later, and the text behind that one is
  \<^verbatim>\<open>"y"\<close>.
\<close>

theorem note_label_overlap:
  "u_extract_id_from_display (Some (u_format_note_choice demo_env
       (JStr (ascii ''y''), JStr (ascii ''x'' @ [32, 8212]), JStr (ascii ''uploaded''))))
     = Some ([8212, 32] @ ascii ''y'') \<and>
   [8212, 32] @ ascii ''y'' \<noteq> ascii ''y''"
  by (simp add: u_extract_id_from_display_def SEP_def py_split_def ascii_def)

text \<open>An identifier that contains the separator is cut as well: only its tail comes back.\<close>

lemma note_label_separator_in_id:
  "u_extract_id_from_display (Some (u_format_note_choice demo_env
       (JStr (ascii ''a'' @ SEP @ ascii ''b''), JStr (ascii ''n''), JStr (ascii ''uploaded''))))
     = Some (ascii ''b'')"
  by (simp add: u_extract_id_from_display_def SEP_def py_split_def ascii_def)

section \<open>Round trip of a quiz label\<close>

lemma py_get_dict: "py_get q k dflt = Inr v \<Longrightarrow> \<exists>d. q = JObj d"
  by (cases q) auto

lemma quiz_qname_named:
  "py_get q (ascii ''name'') JNull = Inr nm \<Longrightarrow> truthy nm \<Longrightarrow> quiz_qname E q qid = Inr nm"
  by (simp add: quiz_qname_def try_bind_def)

lemma quiz_qname_fallback:
  "py_get q (ascii ''name'') JNull = Inr nm \<Longrightarrow> \<not> truthy nm \<Longrightarrow>
     quiz_qname E q (JStr qid) = Inr (JStr (ascii ''Quiz '' @ take 8 qid))"
  by (simp add: quiz_qname_def try_bind_def)

lemma quiz_qname_total:
  assumes "q = JObj d"
  shows "\<exists>qname. quiz_qname E q (JStr qid) = Inr qname"
  using assms by (simp add: quiz_qname_def try_bind_def)

text \<open>
  Take a quiz (a dict) whose identifier is a string without the separator; an absent
  identifier counts as the empty string. Its label is the name part, the separator and
  the identifier, where the name part is the quiz's name when that is truthy and
  \<^verbatim>\<open>"Quiz "\<close> with the first eight characters of the identifier otherwise. Decoding
  the label gives back the whole identifier whenever the name part does not end with a
  space followed by an em dash.
\<close>

lemma quiz_label_roundtrip_sufficient:
  assumes "py_get q (ascii ''id'') (JStr []) = Inr (JStr qid)" and "\<not> py_contains SEP qid"
  shows "\<exists>qname label.
           quiz_qname E q (JStr qid) = Inr qname \<and>
           u_format_quiz_choice E q = Inr label \<and> label = py_str E qname @ SEP @ qid \<and>
           (\<forall>nm. py_get q (ascii ''name'') JNull = Inr nm \<and> truthy nm \<longrightarrow> qname = nm) \<and>
           ((\<exists>nm. py_get q (ascii ''name'') JNull = Inr nm \<and> \<not> truthy nm) \<longrightarrow>
              qname = JStr (ascii ''Quiz '' @ take 8 qid)) \<and>
           (\<not> suffix [32, 8212] (py_str E qname) \<longrightarrow>
              u_extract_id_from_display (Some label) = Some qid)"
proof -
  from assms(1) obtain d where d: "q = JObj d" using py_get_dict by blast
  then obtain qname where qn: "quiz_qname E q (JStr qid) = Inr qname"
    using quiz_qname_total by blast
  have fmt: "u_format_quiz_choice E q = Inr (py_str E qname @ SEP @ qid)"
    using assms(1) qn by (simp add: u_format_quiz_choice_def try_bind_def)
  have nm: "\<forall>nm. py_get q (ascii ''name'') JNull = Inr nm \<and> truthy nm \<longrightarrow> qname = nm"
    using qn quiz_qname_named by fastforce
  have fb: "(\<exists>nm. py_get q (ascii ''name'') JNull = Inr nm \<and> \<not> truthy nm) \<longrightarrow>
              qname = JStr (ascii ''Quiz '' @ take 8 qid)"
    using qn quiz_qname_fallback by fastforce
  have dec: "\<not> suffix [32, 8212] (py_str E qname) \<longrightarrow>
              u_extract_id_from_display (Some (py_str E qname @ SEP @ qid)) = Some qid"
    using assms(2) by (simp add: extract_label)
  show ?thesis using qn fmt nm fb dec by blast
qed

text \<open>
  Claim C2 says that decoding the label of any quiz gives back the quiz's identifier. The
  code does not do that for every quiz, for the reason it fails for notes. The quiz \<^verbatim>\<open>{"id": "y", "name": "x --"}\<close> has
  the label \<^verbatim>\<open>"x -- -- y"\<close>, the identifier embedded at its end, and the decoder
  answers \<^verbatim>\<open>"-- y"\<close>.
\<close>

theorem quiz_label_overlap:
  "u_format_quiz_choice demo_env
      (JObj [(ascii ''id'', JStr (ascii ''y'')), (ascii ''name'', JStr (ascii ''x'' @ [32, 8212]))])
     = Inr (ascii ''x'' @ [32, 8212] @ SEP @ ascii ''y'') \<and>
   u_extract_id_from_display (Some (ascii ''x'' @ [32, 8212] @ SEP @ ascii ''y''))
     = Some ([8212, 32] @ ascii ''y'') \<and>
   [8212, 32] @ ascii ''y'' \<noteq> ascii ''y''"
  by (simp add: u_format_quiz_choice_def quiz_qname_def try_bind_def
                u_extract_id_from_display_def SEP_def py_split_def ascii_def)

lemma no_dash_no_sep: "8212 \<notin> set s \<Longrightarrow> \<not> py_contains SEP s"
  by (induction s) (auto simp: SEP_def prefix_def)

lemma suffix_last: "suffix [a, b] xs \<Longrightarrow> xs \<noteq> [] \<and> last xs = b"
  by (auto simp: suffix_def)

lemma ascii_Quiz: "ascii ''Quiz '' = [81, 117, 105, 122, 32]"
  by (simp add: ascii_def)

lemma fallback_no_suffix:
  assumes "8212 \<notin> set qid"
  shows "\<not> suffix [32, 8212] (ascii ''Quiz '' @ take 8 qid)"
proof
  assume "suffix [32, 8212] (ascii ''Quiz '' @ take 8 qid)"
  then have l: "last ([81, 117, 105, 122, 32] @ take 8 qid) = 8212"
    using suffix_last ascii_Quiz by metis
  show False
  proof (cases "take 8 qid")
    case Nil
    then show False using l by simp
  next
    case (Cons a as)
    then have "last (take 8 qid) = 8212" using l by simp
    moreover have "last (take 8 qid) \<in> set (take 8 qid)" using Cons by simp
    ultimately have "8212 \<in> set qid" using in_set_takeD by metis
    then show False using assms by simp
  qed
qed

text \<open>
  For a quiz without a name it is enough that the identifier holds no em dash at all.
\<close>

lemma unnamed_quiz_label:
  assumes "py_get q (ascii ''id'') (JStr []) = Inr (JStr qid)"
    and "py_get q (ascii ''name'') JNull = Inr nm" and "\<not> truthy nm"
    and "8212 \<notin> set qid"
  shows "u_format_quiz_choice E q = Inr (ascii ''Quiz '' @ take 8 qid @ SEP @ qid) \<and>
         u_extract_id_from_display (Some (ascii ''Quiz '' @ take 8 qid @ SEP @ qid)) = Some qid"
proof -
  have "u_format_quiz_choice E q = Inr (ascii ''Quiz '' @ take 8 qid @ SEP @ qid)"
    using assms(1-3) by (simp add: u_format_quiz_choice_def try_bind_def quiz_qname_fallback)
  moreover have "u_extract_id_from_display (Some ((ascii ''Quiz '' @ take 8 qid) @ SEP @ qid)) = Some qid"
    using assms(4) by (intro extract_label no_dash_no_sep fallback_no_suffix)
  ultimately show ?thesis by simp
qed

text \<open>For a quiz with a name the label carries that name.\<close>

lemma named_quiz_label:
  assumes "py_get q (ascii ''id'') (JStr []) = Inr (JStr qid)"
    and "py_get q (ascii ''name'') JNull = Inr (JStr n)" and "n \<noteq> []"
    and "\<not> py_contains SEP qid" and "\<not> suffix [32, 8212] n"
  shows "u_format_quiz_choice E q = Inr (n @ SEP @ qid) \<and>
         u_extract_id_from_display (Some (n @ SEP @ qid)) = Some qid"
proof -
  have "quiz_qname E q (JStr qid) = Inr (JStr n)"
    using assms(2,3) by (simp add: quiz_qname_named)
  then have "u_format_quiz_choice E q = Inr (n @ SEP @ qid)"
    using assms(1) by (simp add: u_format_quiz_choice_def try_bind_def)
  then show ?thesis using assms(4,5) by (simp add: extract_label)
qed


section \<open>Submitting a quiz\<close>

lemma strip_blank: "list_all py_isspace s \<Longrightarrow> py_strip s = []"
proof -
  assume "list_all py_isspace s"
  then have "dropWhile py_isspace s = []"
    unfolding dropWhile_eq_Nil_conv list_all_iff .
  then show ?thesis by (simp only: py_strip_def rev.simps dropWhile.simps)
qed

lemma answers_of_frame:
  "map_of cols (ascii ''answer'') = Some col \<Longrightarrow>
     answers_of E (DataFrame cols) = map (\<lambda>r. py_strip (py_str E r)) col"
  by (simp add: answers_of_def answers_try_def)

lemma blank_cell_in_frame:
  assumes "map_of cols (ascii ''answer'') = Some col" and "JStr s \<in> set col"
    and "list_all py_isspace s"
  shows "[] \<in> set (answers_of E (DataFrame cols))"
proof -
  have "py_strip (py_str E (JStr s)) = []" using assms(3) by (simp add: strip_blank)
  then show ?thesis using assms(1,2) by (force simp: answers_of_frame)
qed

lemma submit_quiz_sends:
  assumes "truthy (cfg_get cfg (ascii ''last_quiz_id''))"
    and "answers_of E df \<noteq> []" and "[] \<notin> set (answers_of E df)"
  shows "snd (u_submit_quiz E cfg df lg) =
           lg @ [\<lparr>req_method = ascii ''POST'',
                   req_url = API_URL E @ ascii ''/quizzes/'' @
                             py_str E (cfg_get cfg (ascii ''last_quiz_id'')) @ ascii ''/submit'',
                   req_headers = u_auth_headers (API_TOKEN E),
                   req_json = Some (JObj [(ascii ''responses'', JArr (map JStr (answers_of E df)))]),
                   req_timeout = None\<rparr>]"
proof -
  have "list_all (\<lambda>a. a \<noteq> []) (answers_of E df)"
    using assms(3) by (auto simp: list_all_iff)
  then show ?thesis
    using assms(1,2)
    by (simp add: u_submit_quiz_def submit_quiz_def u_request_def Let_def split: prod.splits sum.splits)
qed

text \<open>
  Claim C3. When the session state records no quiz (\<^verbatim>\<open>cfg.get("last_quiz_id")\<close> is
  \<^verbatim>\<open>None\<close>, or any other falsy value), the submit handler returns the error
  \<^verbatim>\<open>"No quiz loaded in this session."\<close> and the log of requests is as it was: nothing
  was sent.
\<close>

theorem submit_quiz_no_quiz_loaded:
  assumes "\<not> truthy (cfg_get cfg (ascii ''last_quiz_id''))"
  shows "u_submit_quiz E cfg df lg
           = (JObj [(ascii ''error'', JStr (ascii ''No quiz loaded in this session.''))], lg)"
  using assms by (simp add: u_submit_quiz_def)

text \<open>An instance: the session state of a fresh session, a filled answer table.\<close>

theorem submit_quiz_no_quiz_loaded_witness:
  "\<not> truthy (cfg_get cfg_state (ascii ''last_quiz_id'')) \<and>
   u_submit_quiz demo_env cfg_state
      (DataFrame [(ascii ''question'', [JStr (ascii ''Why?'')]),
                  (ascii ''answer'', [JStr (ascii ''Because.'')])]) []
     = (JObj [(ascii ''error'', JStr (ascii ''No quiz loaded in this session.''))], [])"
proof -
  have a: "\<not> truthy (cfg_get cfg_state (ascii ''last_quiz_id''))"
    by (simp add: cfg_get_def cfg_state_def)
  show ?thesis using a submit_quiz_no_quiz_loaded [OF a] by simp
qed

text \<open>
  Claim C4. When a quiz is recorded and the trimmed answers hold an empty string, or
  there are no answers at all, the submit handler returns an error payload and the log
  of requests is as it was.
\<close>

theorem submit_quiz_blank_answer:
  assumes "truthy (cfg_get cfg (ascii ''last_quiz_id''))"
    and "answers_of E df = [] \<or> [] \<in> set (answers_of E df)"
  shows "u_submit_quiz E cfg df lg
           = (JObj [(ascii ''error'',
                     JStr (ascii ''All questions must be attempted before submission''))], lg)"
proof -
  have "answers_of E df = [] \<or> \<not> list_all (\<lambda>a. a \<noteq> []) (answers_of E df)"
    using assms(2) by (auto simp: list_all_iff)
  then show ?thesis using assms(1) by (simp add: u_submit_quiz_def Let_def)
qed

text \<open>
  An instance: a data frame of two questions whose second answer is a space and a tab.
\<close>

theorem submit_quiz_blank_answer_witness:
  "truthy (cfg_get (cfg_state(ascii ''last_quiz_id'' \<mapsto> JStr (ascii ''q1''))) (ascii ''last_quiz_id'')) \<and>
   [] \<in> set (answers_of demo_env (DataFrame [(ascii ''question'', [JStr (ascii ''Why?''), JStr (ascii ''How?'')]),
                  (ascii ''answer'', [JStr (ascii ''Because.''), JStr [32, 9]])])) \<and>
   u_submit_quiz demo_env (cfg_state(ascii ''last_quiz_id'' \<mapsto> JStr (ascii ''q1'')))
      (DataFrame [(ascii ''question'', [JStr (ascii ''Why?''), JStr (ascii ''How?'')]),
                  (ascii ''answer'', [JStr (ascii ''Because.''), JStr [32, 9]])]) []
     = (JObj [(ascii ''error'',
               JStr (ascii ''All questions must be attempted before submission''))], [])"
proof -
  let ?cfg = "cfg_state(ascii ''last_quiz_id'' \<mapsto> JStr (ascii ''q1''))"
  let ?df = "DataFrame [(ascii ''question'', [JStr (ascii ''Why?''), JStr (ascii ''How?'')]),
                  (ascii ''answer'', [JStr (ascii ''Because.''), JStr [32, 9]])]"
  have a: "truthy (cfg_get ?cfg (ascii ''last_quiz_id''))"
    by (simp add: cfg_get_def ascii_def)
  have b: "[] \<in> set (answers_of demo_env ?df)"
    by (simp add: answers_of_def answers_try_def py_strip_def py_isspace_def ascii_def)
  then have c: "answers_of demo_env ?df = [] \<or> [] \<in> set (answers_of demo_env ?df)" by simp
  show ?thesis using a b submit_quiz_blank_answer [OF a c, of "[]"] by simp
qed


section \<open>Rows of the concept table\<close>

text \<open>
  Values of the float operations, as binary64 arithmetic gives them: the float of 0.1, the
  float of the integer \<open>2 ^ 53 + 1\<close>, the ties 0.125 and 0.375 rounded to two decimals,
  and the float of -0.001 rounded to the negative zero.
\<close>

lemma fl_round_tenth: "fl_round (1 / 10) = Fin (3602879701896397 / 36028797018963968)"
  by (simp add: fl_defs)

lemma py_float_odd_int: "py_float E (JInt 9007199254740993) = Inr (Fin 9007199254740992)"
  by (simp add: fl_defs)

text \<open>\<^verbatim>\<open>float(10 ** 309)\<close> raises: the integer is beyond the largest float.\<close>

lemma py_float_huge_int: "py_float E (JInt (10 ^ 309)) = Inl OverflowError"
  by (simp add: fl_defs)

lemma py_round_ties:
  "py_round (Fin (1 / 8)) 2 = Inr (Fin (1080863910568919 / 9007199254740992))"
  "py_round (Fin (3 / 8)) 2 = Inr (Fin (3422735716801577 / 9007199254740992))"
  "py_round (Fin (- 1152921504606847 / 1152921504606846976)) 2 = Inr NegZero"
  by (simp_all add: fl_defs)

lemma concept_row_cells:
  assumes "py_get (JObj c) (ascii ''srs_info'') (JObj []) = Inr (JObj s)"
  shows "concept_row E (JObj c) =
     try_bind (stability_cell E (case map_of s (ascii ''stability'') of None \<Rightarrow> JNull | Some v \<Rightarrow> v)) (\<lambda>stab.
     try_bind (difficulty_cell E (case map_of s (ascii ''difficulty'') of None \<Rightarrow> JNull | Some v \<Rightarrow> v)) (\<lambda>diff.
     try_bind (date_cell E (case map_of s (ascii ''due'') of None \<Rightarrow> JStr [] | Some v \<Rightarrow> v)) (\<lambda>due.
     try_bind (date_cell E (case map_of s (ascii ''last_review'') of None \<Rightarrow> JStr [] | Some v \<Rightarrow> v)) (\<lambda>rev.
     Inr [case map_of c (ascii ''name'') of None \<Rightarrow> JStr [] | Some v \<Rightarrow> v,
          case map_of c (ascii ''content'') of None \<Rightarrow> JStr [] | Some v \<Rightarrow> v,
          stab, diff, due, rev]))))"
  using assms by (simp add: concept_row_def try_bind_simps)

lemma blank_cells:
  "stability_cell E JNull = Inr (JStr [])" "difficulty_cell E JNull = Inr (JStr [])"
  "date_cell E (JStr []) = Inr (JStr [])"
  by (simp_all add: stability_cell_def difficulty_cell_def date_cell_def)

lemma difficulty_of_float:
  "truthy (JFloat f) \<Longrightarrow>
     difficulty_cell E (JFloat f) =
       try_bind (py_round (fl_mul (fl_div (fl_sub f 1) 9) 100) 2) (\<lambda>r. Inr (JFloat r))"
  by (simp add: difficulty_cell_def try_bind_simps)

lemma difficulty_raw_1:
  "difficulty_cell E (JInt 1) = Inr (JFloat (Fin 0))"
  "difficulty_cell E (JFloat (Fin 1)) = Inr (JFloat (Fin 0))"
  by (simp_all add: difficulty_cell_def try_bind_simps fl_defs)

lemma difficulty_raw_10:
  "difficulty_cell E (JInt 10) = Inr (JFloat (Fin 100))"
  "difficulty_cell E (JFloat (Fin 10)) = Inr (JFloat (Fin 100))"
  by (simp_all add: difficulty_cell_def try_bind_simps fl_defs)

lemma difficulty_raw_5_5: "difficulty_cell E (JFloat (Fin (11 / 2))) = Inr (JFloat (Fin 50))"
  by (simp add: difficulty_cell_def try_bind_simps fl_defs)

text \<open>
  The raw value 2 gives the float 11.11. The raw value 1.02925 gives 0.33: the float
  product is just above 0.325, where the exact value of \<open>(raw - 1) / 9 * 100\<close> is just
  below it. A raw value a little under 1 gives the negative zero.
\<close>

lemma difficulty_raw_2:
  "difficulty_cell E (JInt 2) = Inr (JFloat (Fin (781796747813847 / 70368744177664)))"
  by (simp add: difficulty_cell_def try_bind_simps fl_defs)

lemma difficulty_raw_1_02925:
  "difficulty_cell E (JFloat (Fin (4635329916471083 / 4503599627370496)))
     = Inr (JFloat (Fin (5944751508129055 / 18014398509481984)))"
  by (simp add: difficulty_cell_def try_bind_simps fl_defs)

lemma difficulty_raw_0_9996:
  "difficulty_cell E (JFloat (Fin (1125449546879887 / 1125899906842624))) = Inr (JFloat NegZero)"
  by (simp add: difficulty_cell_def try_bind_simps fl_defs)

text \<open>
  Claim C5. The difficulty cell of a concept is \<^verbatim>\<open>round(((raw - 1) / 9) * 100, 2)\<close> in
  binary64 arithmetic: the raw values 1, 10 and 5.5 give the floats 0, 100 and 50, and
  for every float that is not a zero the cell is the float difference, quotient and
  product, rounded to two decimals.
\<close>

theorem difficulty_rescaling:
  "difficulty_cell E (JInt 1) = Inr (JFloat (Fin 0)) \<and>
   difficulty_cell E (JFloat (Fin 1)) = Inr (JFloat (Fin 0)) \<and>
   difficulty_cell E (JInt 10) = Inr (JFloat (Fin 100)) \<and>
   difficulty_cell E (JFloat (Fin 10)) = Inr (JFloat (Fin 100)) \<and>
   difficulty_cell E (JFloat (Fin (11 / 2))) = Inr (JFloat (Fin 50)) \<and>
   (truthy (JFloat f) \<longrightarrow>
      difficulty_cell E (JFloat f) =
        try_bind (py_round (fl_mul (fl_div (fl_sub f 1) 9) 100) 2) (\<lambda>r. Inr (JFloat r)))"
  using difficulty_raw_1 difficulty_raw_10 difficulty_raw_5_5 difficulty_of_float by blast

text \<open>An instance: the raw value 1.02925 gives 0.33.\<close>

theorem difficulty_rescaling_witness:
  "truthy (JFloat (Fin (4635329916471083 / 4503599627370496))) \<and>
   difficulty_cell demo_env (JFloat (Fin (4635329916471083 / 4503599627370496)))
     = Inr (JFloat (Fin (5944751508129055 / 18014398509481984))) \<and>
   difficulty_cell demo_env (JInt 1) = Inr (JFloat (Fin 0)) \<and>
   difficulty_cell demo_env (JInt 10) = Inr (JFloat (Fin 100)) \<and>
   difficulty_cell demo_env (JFloat (Fin (11 / 2))) = Inr (JFloat (Fin 50))"
proof -
  have t: "truthy (JFloat (Fin (4635329916471083 / 4503599627370496)))" by simp
  have r: "py_round (fl_mul (fl_div (fl_sub (Fin (4635329916471083 / 4503599627370496)) 1) 9) 100) 2
             = Inr (Fin (5944751508129055 / 18014398509481984))"
    by (simp add: fl_defs)
  show ?thesis
    using t r difficulty_rescaling [of demo_env "Fin (4635329916471083 / 4503599627370496)"]
    by (simp add: try_bind_simps)
qed

text \<open>
  Claim C6. Take a concept (a dict) whose \<^verbatim>\<open>srs_info\<close> is absent or a dict. If the row
  is built, it has six cells and the cell of each sub-field that is missing from
  \<^verbatim>\<open>srs_info\<close> is the empty string. If building the row raises, the exception comes
  from the cell of a sub-field that is present: a missing one never raises.
\<close>

theorem missing_srs_fields_blank:
  assumes "py_get (JObj c) (ascii ''srs_info'') (JObj []) = Inr (JObj s)"
  shows "(\<forall>row. concept_row E (JObj c) = Inr row \<longrightarrow>
            length row = 6 \<and>
            (map_of s (ascii ''stability'') = None \<longrightarrow> row ! 2 = JStr []) \<and>
            (map_of s (ascii ''difficulty'') = None \<longrightarrow> row ! 3 = JStr []) \<and>
            (map_of s (ascii ''due'') = None \<longrightarrow> row ! 4 = JStr []) \<and>
            (map_of s (ascii ''last_review'') = None \<longrightarrow> row ! 5 = JStr [])) \<and>
         (\<forall>e. concept_row E (JObj c) = Inl e \<longrightarrow>
            (\<exists>v. map_of s (ascii ''stability'') = Some v \<and> stability_cell E v = Inl e) \<or>
            (\<exists>v. map_of s (ascii ''difficulty'') = Some v \<and> difficulty_cell E v = Inl e) \<or>
            (\<exists>v. map_of s (ascii ''due'') = Some v \<and> date_cell E v = Inl e) \<or>
            (\<exists>v. map_of s (ascii ''last_review'') = Some v \<and> date_cell E v = Inl e))"
  unfolding concept_row_cells [OF assms]
  by (auto simp: try_bind_def blank_cells split: sum.splits option.splits)

text \<open>An instance: a concept with a stability and nothing else in \<^verbatim>\<open>srs_info\<close>.\<close>

theorem missing_srs_fields_blank_witness:
  "py_get (JObj [(ascii ''name'', JStr (ascii ''Osmosis'')),
                 (ascii ''srs_info'', JObj [(ascii ''stability'', JFloat (Fin (5 / 2)))])])
      (ascii ''srs_info'') (JObj []) = Inr (JObj [(ascii ''stability'', JFloat (Fin (5 / 2)))]) \<and>
   map_of [(ascii ''stability'', JFloat (Fin (5 / 2)))] (ascii ''difficulty'') = None \<and>
   concept_row demo_env
      (JObj [(ascii ''name'', JStr (ascii ''Osmosis'')),
             (ascii ''srs_info'', JObj [(ascii ''stability'', JFloat (Fin (5 / 2)))])])
     = Inr [JStr (ascii ''Osmosis''), JStr [], JFloat (Fin (5 / 2)), JStr [], JStr [], JStr []] \<and>
   [JStr (ascii ''Osmosis''), JStr [], JFloat (Fin (5 / 2)), JStr [], JStr [], JStr []] ! 3 = JStr []"
proof -
  let ?s = "[(ascii ''stability'', JFloat (Fin (5 / 2)))]"
  let ?c = "[(ascii ''name'', JStr (ascii ''Osmosis'')), (ascii ''srs_info'', JObj ?s)]"
  let ?row = "[JStr (ascii ''Osmosis''), JStr [], JFloat (Fin (5 / 2)), JStr [], JStr [], JStr []]"
  have a: "py_get (JObj ?c) (ascii ''srs_info'') (JObj []) = Inr (JObj ?s)"
    by (simp add: ascii_def)
  have b: "map_of ?s (ascii ''difficulty'') = None" by (simp add: ascii_def)
  have r: "stability_cell demo_env (JFloat (Fin (5 / 2))) = Inr (JFloat (Fin (5 / 2)))"
    by (simp add: stability_cell_def try_bind_simps fl_defs)
  have c: "concept_row demo_env (JObj ?c) = Inr ?row"
    unfolding concept_row_cells [OF a]
    by (simp add: try_bind_simps blank_cells r ascii_eq_iff)
  show ?thesis using a b c missing_srs_fields_blank [OF a, of demo_env] by simp
qed

text \<open>With no \<^verbatim>\<open>srs_info\<close> at all, the row is built and its four cells are empty.\<close>

lemma missing_srs_info_row:
  assumes "map_of c (ascii ''srs_info'') = None"
  shows "concept_row E (JObj c) =
           Inr [case map_of c (ascii ''name'') of None \<Rightarrow> JStr [] | Some v \<Rightarrow> v,
                case map_of c (ascii ''content'') of None \<Rightarrow> JStr [] | Some v \<Rightarrow> v,
                JStr [], JStr [], JStr [], JStr []]"
proof -
  have "py_get (JObj c) (ascii ''srs_info'') (JObj []) = Inr (JObj [])" using assms by simp
  from concept_row_cells [OF this] show ?thesis by (simp add: try_bind_def blank_cells)
qed

text \<open>
  A \<^verbatim>\<open>srs_info\<close> that is present and \<^verbatim>\<open>null\<close> is another matter: \<^verbatim>\<open>c.get\<close> returns
  \<^verbatim>\<open>None\<close>, not the default, and \<^verbatim>\<open>None.get\<close> raises.
\<close>

lemma null_srs_info_raises:
  "map_of c (ascii ''srs_info'') = Some JNull \<Longrightarrow> concept_row E (JObj c) = Inl AttributeError"
  by (simp add: concept_row_def try_bind_def)


text \<open>
  Claim C10. The guard \<^verbatim>\<open>"" if not x\<close> does not tell zero from absent: a stability or
  a difficulty that is the number 0 (the integer, the float or the negative zero) gives
  the empty string, not the number, in the cell and in the row.
\<close>

theorem zero_renders_blank:
  "stability_cell E (JInt 0) = Inr (JStr []) \<and> stability_cell E (JFloat (Fin 0)) = Inr (JStr []) \<and>
   difficulty_cell E (JInt 0) = Inr (JStr []) \<and> difficulty_cell E (JFloat (Fin 0)) = Inr (JStr []) \<and>
   stability_cell E (JFloat NegZero) = Inr (JStr []) \<and>
   difficulty_cell E (JFloat NegZero) = Inr (JStr []) \<and>
   stability_cell E (JInt 0) \<noteq> Inr (JFloat (Fin 0)) \<and>
   difficulty_cell E (JInt 0) \<noteq> Inr (JFloat (Fin 0)) \<and>
   concept_row E (JObj [(ascii ''name'', nm),
                        (ascii ''srs_info'', JObj [(ascii ''stability'', JInt 0),
                                                   (ascii ''difficulty'', JFloat (Fin 0))])])
     = Inr [nm, JStr [], JStr [], JStr [], JStr [], JStr []]"
proof -
  let ?s = "[(ascii ''stability'', JInt 0), (ascii ''difficulty'', JFloat (Fin 0))]"
  let ?c = "[(ascii ''name'', nm), (ascii ''srs_info'', JObj ?s)]"
  have z: "stability_cell E (JInt 0) = Inr (JStr [])"
     "stability_cell E (JFloat (Fin 0)) = Inr (JStr [])"
     "difficulty_cell E (JInt 0) = Inr (JStr [])"
     "difficulty_cell E (JFloat (Fin 0)) = Inr (JStr [])"
     "stability_cell E (JFloat NegZero) = Inr (JStr [])"
     "difficulty_cell E (JFloat NegZero) = Inr (JStr [])"
    by (simp_all add: stability_cell_def difficulty_cell_def)
  have a: "py_get (JObj ?c) (ascii ''srs_info'') (JObj []) = Inr (JObj ?s)"
    by (simp add: ascii_def)
  have "concept_row E (JObj ?c) = Inr [nm, JStr [], JStr [], JStr [], JStr [], JStr []]"
    unfolding concept_row_cells [OF a]
    by (simp add: try_bind_simps blank_cells z ascii_eq_iff)
  then show ?thesis using z by simp
qed

text \<open>An instance: the concept \<^verbatim>\<open>"Osmosis"\<close> with stability 0 and difficulty 0.0.\<close>

theorem zero_renders_blank_witness:
  "stability_cell demo_env (JInt 0) = Inr (JStr []) \<and>
   difficulty_cell demo_env (JFloat (Fin 0)) = Inr (JStr []) \<and>
   concept_row demo_env (JObj [(ascii ''name'', JStr (ascii ''Osmosis'')),
                        (ascii ''srs_info'', JObj [(ascii ''stability'', JInt 0),
                                                   (ascii ''difficulty'', JFloat (Fin 0))])])
     = Inr [JStr (ascii ''Osmosis''), JStr [], JStr [], JStr [], JStr [], JStr []]"
  using zero_renders_blank [of demo_env "JStr (ascii ''Osmosis'')"] by simp

text \<open>A stability other than zero does reach the cell as a number.\<close>

lemma nonzero_stability_renders:
  "stability_cell E (JFloat (Fin (1 / 2))) = Inr (JFloat (Fin (1 / 2)))"
  by (simp add: stability_cell_def try_bind_simps fl_defs)

section \<open>Processing a note and the session state\<close>

lemma cfg_put_back: "k \<in> dom cfg \<Longrightarrow> cfg(k \<mapsto> cfg_get cfg k) = cfg"
  by (auto simp: cfg_get_def fun_upd_idem_iff)

lemma u_process_state:
  "snd (fst (u_process E cfg sel lg)) =
     (if not_str (u_extract_id_from_display sel) then cfg
      else cfg(ascii ''last_note_id'' \<mapsto>
             (if fst (fst (process_note E (API_URL E) (API_TOKEN E)
                             (the (u_extract_id_from_display sel)) lg))
              then JStr (the (u_extract_id_from_display sel))
              else cfg_get cfg (ascii ''last_note_id''))))"
  by (simp add: u_process_def Let_def split: prod.splits)

lemma process_note_http_error:
  assumes "server E lg \<lparr>req_method = ascii ''POST'',
             req_url = api_url @ ascii ''/notes/'' @ nid @ ascii ''/process'',
             req_headers = u_auth_headers token, req_json = None, req_timeout = Some 120\<rparr> = Inr r"
    and "400 \<le> status_code r" and "status_code r < 600"
  shows "fst (process_note E api_url token nid lg) = (False, CROSS @ str_exc E (HTTPError (status_code r)))"
  using assms
  by (simp add: process_note_def u_request_def raise_for_status_def try_bind_simps)

lemma u_process_keeps_keys: "dom cfg \<subseteq> dom (snd (fst (u_process E cfg sel lg)))"
  by (auto simp: u_process_state)

lemma u_process_keeps_quiz:
  "snd (fst (u_process E cfg sel lg)) (ascii ''last_quiz_id'') = cfg (ascii ''last_quiz_id'')"
  by (simp add: u_process_state ascii_def)


lemma demo_process_fails:
  "fst (process_note demo_env (API_URL demo_env) (API_TOKEN demo_env) nid lg)
     = (False, CROSS @ ascii ''error'')"
  by (simp add: process_note_def u_request_def demo_env_def demo_server_def
                raise_for_status_def try_bind_simps ascii_eq_iff)

text \<open>
  Claim C7. The session state holds the key \<^verbatim>\<open>"last_note_id"\<close> from its creation on.
  Then the state that the process handler returns is the state it was given when no note
  is selected and when \<^verbatim>\<open>process_note\<close> reports failure; when it reports success, and
  only then, the returned state is the given one with \<^verbatim>\<open>last_note_id\<close> set to the
  identifier of the processed note. The quiz identifier is never touched
  (\<open>u_process_keeps_quiz\<close>).
\<close>

theorem process_failure_keeps_state:
  assumes "ascii ''last_note_id'' \<in> dom cfg"
  shows "(not_str (u_extract_id_from_display sel) \<longrightarrow>
            snd (fst (u_process E cfg sel lg)) = cfg) \<and>
         (\<forall>nid. u_extract_id_from_display sel = Some nid \<and> nid \<noteq> [] \<and>
                \<not> fst (fst (process_note E (API_URL E) (API_TOKEN E) nid lg)) \<longrightarrow>
            snd (fst (u_process E cfg sel lg)) = cfg) \<and>
         (\<forall>nid. u_extract_id_from_display sel = Some nid \<and> nid \<noteq> [] \<and>
                fst (fst (process_note E (API_URL E) (API_TOKEN E) nid lg)) \<longrightarrow>
            snd (fst (u_process E cfg sel lg)) = cfg(ascii ''last_note_id'' \<mapsto> JStr nid))"
  using assms by (auto simp: u_process_state not_str_def cfg_put_back)

text \<open>
  An instance: the backend answers the processing request with status 500, the state
  recorded the note \<^verbatim>\<open>"n0"\<close> before and records it afterwards.
\<close>

theorem process_failure_keeps_state_witness:
  "ascii ''last_note_id'' \<in> dom (cfg_state(ascii ''last_note_id'' \<mapsto> JStr (ascii ''n0''))) \<and>
   u_extract_id_from_display (Some (ascii ''Cells'' @ SEP @ ascii ''n2'')) = Some (ascii ''n2'') \<and>
   ascii ''n2'' \<noteq> [] \<and>
   \<not> fst (fst (process_note demo_env (API_URL demo_env) (API_TOKEN demo_env) (ascii ''n2'') [])) \<and>
   snd (fst (u_process demo_env (cfg_state(ascii ''last_note_id'' \<mapsto> JStr (ascii ''n0'')))
               (Some (ascii ''Cells'' @ SEP @ ascii ''n2'')) []))
     = cfg_state(ascii ''last_note_id'' \<mapsto> JStr (ascii ''n0''))"
proof -
  let ?cfg = "cfg_state(ascii ''last_note_id'' \<mapsto> JStr (ascii ''n0''))"
  have a: "ascii ''last_note_id'' \<in> dom ?cfg" by simp
  have b: "u_extract_id_from_display (Some (ascii ''Cells'' @ SEP @ ascii ''n2'')) = Some (ascii ''n2'')"
    by (simp add: u_extract_id_from_display_def SEP_def py_split_def ascii_def)
  have c: "ascii ''n2'' \<noteq> []" by (simp add: ascii_def)
  have d: "\<not> fst (fst (process_note demo_env (API_URL demo_env) (API_TOKEN demo_env) (ascii ''n2'') []))"
    by (simp add: demo_process_fails)
  show ?thesis
    using a b c d
      process_failure_keeps_state [OF a, of "Some (ascii ''Cells'' @ SEP @ ascii ''n2'')" demo_env "[]"]
    by blast
qed


section \<open>Rows of the notes table\<close>

text \<open>
  The two handlers that fill the notes table, on whatever list of notes the backend
  returns: the refresh builds the pairs name, status; the list after a delete builds the
  triples identifier, name, status.
\<close>

lemma refresh_notes_rows:
  assumes "list_notes E (API_URL E) (API_TOKEN E) lg = (Inr notes, lg')"
  shows "\<exists>upd. u_refresh_notes E cfg lg = (Inr (map (\<lambda>(i, nm, st). [nm, st]) notes, upd), lg')"
  using assms by (simp add: u_refresh_notes_def try_bind_simps Let_def case_prod_beta)

lemma delete_note_rows:
  assumes "u_extract_id_from_display sel = Some nid" and "nid \<noteq> []"
    and "delete_note E (API_URL E) (API_TOKEN E) nid lg = ((True, msg), lg1)"
    and "list_notes E (API_URL E) (API_TOKEN E) lg1 = (Inr notes, lg2)"
  shows "\<exists>upd. u_delete_note E cfg sel lg =
           (Inr (CHECK @ ascii ''Note deleted.'', map (\<lambda>(i, nm, st). [i, nm, st]) notes, upd), lg2)"
  using assms
  by (simp add: u_delete_note_def not_str_def try_bind_simps Let_def case_prod_beta)

lemma demo_list_after_delete:
  "list_ex (\<lambda>rq. req_method rq = ascii ''DELETE'') lg \<Longrightarrow>
   fst (list_notes demo_env (API_URL demo_env) (API_TOKEN demo_env) lg)
     = Inr [(JStr (ascii ''n2''), JStr (ascii ''Cells''), JStr (ascii ''processed''))]"
  by (simp add: list_notes_def u_request_def demo_env_def demo_server_def demo_notes_def
                raise_for_status_def json_of_def try_bind_simps ascii_eq_iff)

text \<open>
  Claim C8, on the sample backend: deleting the note \<^verbatim>\<open>"n1"\<close> leaves the note
  \<^verbatim>\<open>("n2", "Cells", "processed")\<close>, and the row handed to the notes table has three cells,
  the identifier first, for a table of two columns. A refresh on the same backend builds
  the row \<^verbatim>\<open>["Cells", "processed"]\<close> (\<open>refresh_after_delete_rows\<close>).
\<close>

theorem delete_note_relist_rows:
  "fst (u_delete_note demo_env cfg_state (Some (ascii ''Photosynthesis'' @ SEP @ ascii ''n1'')) [])
     = Inr (CHECK @ ascii ''Note deleted.'',
            [[JStr (ascii ''n2''), JStr (ascii ''Cells''), JStr (ascii ''processed'')]],
            \<lparr>upd_choices = Some [ascii ''Cells'' @ SEP @ ascii ''n2''], upd_value = Some VNone,
             upd_interactive = None\<rparr>) \<and>
   length [JStr (ascii ''n2''), JStr (ascii ''Cells''), JStr (ascii ''processed'')]
     \<noteq> length notes_df_headers"
proof -
  have b: "u_extract_id_from_display (Some (ascii ''Photosynthesis'' @ SEP @ ascii ''n1'')) = Some (ascii ''n1'')"
    using extract_label [of "ascii ''n1''" "ascii ''Photosynthesis''"]
    by (simp add: SEP_def ascii_def suffix_def)
  have d: "delete_note demo_env (API_URL demo_env) (API_TOKEN demo_env) (ascii ''n1'') []
            = ((True, JObj [(ascii ''deleted'', JBool True)]),
               [\<lparr>req_method = ascii ''DELETE'', req_url = ascii ''http://localhost:5046'' @ ascii ''/notes/'' @ ascii ''n1'',
                 req_headers = u_auth_headers (ascii ''secret''), req_json = None, req_timeout = None\<rparr>])"
    by (simp add: delete_note_def u_request_def demo_env_def demo_server_def
                  raise_for_status_def json_of_def try_bind_simps ascii_eq_iff)
  let ?lg = "[\<lparr>req_method = ascii ''DELETE'', req_url = ascii ''http://localhost:5046'' @ ascii ''/notes/'' @ ascii ''n1'',
                 req_headers = u_auth_headers (ascii ''secret''), req_json = None, req_timeout = None\<rparr>]"
  have l: "fst (list_notes demo_env (API_URL demo_env) (API_TOKEN demo_env) ?lg)
     = Inr [(JStr (ascii ''n2''), JStr (ascii ''Cells''), JStr (ascii ''processed''))]"
    by (rule demo_list_after_delete) simp
  have n1: "ascii ''n1'' \<noteq> []" by (simp add: ascii_def)
  have "fst (u_delete_note demo_env cfg_state (Some (ascii ''Photosynthesis'' @ SEP @ ascii ''n1'')) [])
     = Inr (CHECK @ ascii ''Note deleted.'',
            [[JStr (ascii ''n2''), JStr (ascii ''Cells''), JStr (ascii ''processed'')]],
            \<lparr>upd_choices = Some [ascii ''Cells'' @ SEP @ ascii ''n2''], upd_value = Some VNone,
             upd_interactive = None\<rparr>)"
    using b d l n1
    by (simp add: u_delete_note_def not_str_def Let_def try_bind_simps u_format_note_choices_def
                  case_prod_beta)
  then show ?thesis by (simp add: notes_df_headers_def)
qed

lemma refresh_after_delete_rows:
  "list_ex (\<lambda>rq. req_method rq = ascii ''DELETE'') lg \<Longrightarrow>
   fst (u_refresh_notes demo_env cfg_state lg)
     = Inr ([[JStr (ascii ''Cells''), JStr (ascii ''processed'')]],
            \<lparr>upd_choices = Some [ascii ''Cells'' @ SEP @ ascii ''n2''],
             upd_value = Some (VStr (ascii ''Cells'' @ SEP @ ascii ''n2'')),
             upd_interactive = None\<rparr>)"
  using demo_list_after_delete [of lg]
  by (simp add: u_refresh_notes_def Let_def try_bind_simps u_format_note_choices_def
                case_prod_beta)


section \<open>What the create-quiz handler returns\<close>

lemma demo_create_quiz:
  "fst (create_quiz demo_env (API_URL demo_env) (API_TOKEN demo_env) ids climit qlimit mode lg)
     = (True, JObj [(ascii ''id'', JStr (ascii ''q1'')),
                    (ascii ''questions'',
                     JArr [JObj [(ascii ''question'', JStr (ascii ''Why?''))]])])"
  by (simp add: create_quiz_def u_request_def demo_env_def demo_server_def
                raise_for_status_def json_of_def try_bind_simps ascii_eq_iff ascii_append Let_def)

lemma down_create_quiz:
  "fst (create_quiz (demo_env\<lparr>server := \<lambda>lg rq. Inl ConnectionError\<rparr>) url token ids climit qlimit mode lg)
     = (False, JStr (CROSS @ ascii ''error''))"
  by (simp add: create_quiz_def u_request_def demo_env_def try_bind_simps Let_def)

lemma ids_of_one:
  "u_extract_ids_from_display_list (Some [ascii ''Cells'' @ SEP @ ascii ''n2'']) = [ascii ''n2'']"
  by (simp add: u_extract_ids_from_display_list_def SEP_def py_split_def ascii_def)

text \<open>
  Claim C9. The handler is wired to three outputs. With no note selected it returns two
  values, the error payload and the cleared table, and sends nothing; when
  \<^verbatim>\<open>create_quiz\<close> reports failure it returns two values again; when \<^verbatim>\<open>create_quiz\<close>
  reports success and the handler returns at all, it returns three values, the session
  state last. On the two error paths no session state is among the values.
\<close>

theorem create_quiz_output_arity:
  "length create_quiz_outputs = 3 \<and>
   (u_extract_ids_from_display_list sels = [] \<longrightarrow>
      (\<exists>a b. u_create_quiz E cfg sels climit qlimit mode lg = (Inr [OJson a, OUpdate b], lg))) \<and>
   (u_extract_ids_from_display_list sels \<noteq> [] \<and>
    \<not> fst (fst (create_quiz E (API_URL E) (API_TOKEN E) (u_extract_ids_from_display_list sels)
                   climit qlimit mode lg)) \<longrightarrow>
      (\<exists>a b. fst (u_create_quiz E cfg sels climit qlimit mode lg) = Inr [OJson a, OUpdate b])) \<and>
   (\<forall>outs. u_extract_ids_from_display_list sels \<noteq> [] \<and>
      fst (fst (create_quiz E (API_URL E) (API_TOKEN E) (u_extract_ids_from_display_list sels)
                  climit qlimit mode lg)) \<and>
      fst (u_create_quiz E cfg sels climit qlimit mode lg) = Inr outs \<longrightarrow>
      (\<exists>a b c. outs = [OJson a, OUpdate b, OState c]))"
proof -
  let ?ids = "u_extract_ids_from_display_list sels"
  let ?r = "create_quiz E (API_URL E) (API_TOKEN E) ?ids climit qlimit mode lg"
  have w: "length create_quiz_outputs = 3" by (simp add: create_quiz_outputs_def)
  have e: "?ids = [] \<longrightarrow>
      (\<exists>a b. u_create_quiz E cfg sels climit qlimit mode lg = (Inr [OJson a, OUpdate b], lg))"
    by (simp add: u_create_quiz_def)
  have f: "?ids \<noteq> [] \<and> \<not> fst (fst ?r) \<longrightarrow>
      (\<exists>a b. fst (u_create_quiz E cfg sels climit qlimit mode lg) = Inr [OJson a, OUpdate b])"
    by (simp add: u_create_quiz_def Let_def case_prod_beta)
  have s: "\<exists>a b c. outs = [OJson a, OUpdate b, OState c]"
    if "?ids \<noteq> []" "fst (fst ?r)" "fst (u_create_quiz E cfg sels climit qlimit mode lg) = Inr outs"
    for outs
  proof -
    from that have "try_bind (py_getitem (snd (fst ?r)) (ascii ''id'')) (\<lambda>qid.
                   let new_cfg = cfg(ascii ''last_quiz_id'' \<mapsto> qid)
                   in try_bind (py_get (snd (fst ?r)) (ascii ''questions'') (JArr [])) (\<lambda>qs.
                      try_bind (py_iter qs) (\<lambda>qs.
                      try_bind (comprehension
                                  (\<lambda>q. try_bind (py_getitem q (ascii ''question''))
                                         (\<lambda>t. Inr [t, JStr []])) qs) (\<lambda>rows.
                      Inr [OJson (snd (fst ?r)),
                           OUpdate \<lparr>upd_choices = None, upd_value = Some (VRows rows),
                                    upd_interactive = None\<rparr>,
                           OState new_cfg])))) = Inr outs"
      by (simp add: u_create_quiz_def Let_def case_prod_beta)
    then show ?thesis
      by (auto simp: Let_def dest!: try_bind_Inr)
  qed
  show ?thesis using w e f s by blast
qed


text \<open>
  An instance of each path: no selection; a backend that cannot be reached; the sample
  backend, which creates the quiz \<^verbatim>\<open>"q1"\<close>.
\<close>

theorem create_quiz_output_arity_witness:
  "length create_quiz_outputs = 3 \<and>
   u_extract_ids_from_display_list None = [] \<and>
   u_create_quiz demo_env cfg_state None (JInt 5) (JInt 10) (JStr (ascii ''mixed'')) []
     = (Inr [OJson (JObj [(ascii ''error'', JStr (ascii ''Select at least one note.''))]),
             OUpdate \<lparr>upd_choices = None, upd_value = Some (VRows []), upd_interactive = None\<rparr>],
        []) \<and>
   fst (u_create_quiz (demo_env\<lparr>server := \<lambda>lg rq. Inl ConnectionError\<rparr>) cfg_state
          (Some [ascii ''Cells'' @ SEP @ ascii ''n2'']) (JInt 5) (JInt 10) (JStr (ascii ''mixed'')) [])
     = Inr [OJson (JObj [(ascii ''error'', JStr (CROSS @ ascii ''error''))]),
            OUpdate \<lparr>upd_choices = None, upd_value = Some (VRows []), upd_interactive = None\<rparr>] \<and>
   fst (u_create_quiz demo_env cfg_state
          (Some [ascii ''Cells'' @ SEP @ ascii ''n2'']) (JInt 5) (JInt 10) (JStr (ascii ''mixed'')) [])
     = Inr [OJson (JObj [(ascii ''id'', JStr (ascii ''q1'')),
                         (ascii ''questions'',
                          JArr [JObj [(ascii ''question'', JStr (ascii ''Why?''))]])]),
            OUpdate \<lparr>upd_choices = None,
                     upd_value = Some (VRows [[JStr (ascii ''Why?''), JStr []]]),
                     upd_interactive = None\<rparr>,
            OState (cfg_state(ascii ''last_quiz_id'' \<mapsto> JStr (ascii ''q1'')))]"
proof -
  have a: "u_extract_ids_from_display_list None = []"
    by (simp add: u_extract_ids_from_display_list_def)
  have b: "u_create_quiz demo_env cfg_state None (JInt 5) (JInt 10) (JStr (ascii ''mixed'')) []
     = (Inr [OJson (JObj [(ascii ''error'', JStr (ascii ''Select at least one note.''))]),
             OUpdate \<lparr>upd_choices = None, upd_value = Some (VRows []), upd_interactive = None\<rparr>],
        [])"
    using a by (simp add: u_create_quiz_def)
  have n: "[ascii ''n2''] \<noteq> []" by simp
  have c: "fst (u_create_quiz (demo_env\<lparr>server := \<lambda>lg rq. Inl ConnectionError\<rparr>) cfg_state
          (Some [ascii ''Cells'' @ SEP @ ascii ''n2'']) (JInt 5) (JInt 10) (JStr (ascii ''mixed'')) [])
     = Inr [OJson (JObj [(ascii ''error'', JStr (CROSS @ ascii ''error''))]),
            OUpdate \<lparr>upd_choices = None, upd_value = Some (VRows []), upd_interactive = None\<rparr>]"
    by (simp add: u_create_quiz_def ids_of_one down_create_quiz Let_def case_prod_beta)
  have d: "fst (u_create_quiz demo_env cfg_state
          (Some [ascii ''Cells'' @ SEP @ ascii ''n2'']) (JInt 5) (JInt 10) (JStr (ascii ''mixed'')) [])
     = Inr [OJson (JObj [(ascii ''id'', JStr (ascii ''q1'')),
                         (ascii ''questions'',
                          JArr [JObj [(ascii ''question'', JStr (ascii ''Why?''))]])]),
            OUpdate \<lparr>upd_choices = None,
                     upd_value = Some (VRows [[JStr (ascii ''Why?''), JStr []]]),
                     upd_interactive = None\<rparr>,
            OState (cfg_state(ascii ''last_quiz_id'' \<mapsto> JStr (ascii ''q1'')))]"
    by (simp add: u_create_quiz_def ids_of_one demo_create_quiz Let_def case_prod_beta
                  try_bind_simps ascii_eq_iff)
  show ?thesis
    using a b c d
      create_quiz_output_arity [of None demo_env cfg_state "JInt 5" "JInt 10" "JStr (ascii ''mixed'')" "[]"]
    by simp
qed


end
